theory Spec2Isabelle
  imports Main
begin

section \<open>Dynamic values, panics, errors and effects\<close>

text \<open>
  Go's \<open>interface{}\<close> values, as the plugin host hands them to the provider: a nil
  interface, a bool, a string, a \<open>[]interface{}\<close> or a \<open>map[string]interface{}\<close>
  (an association list, in the order the runtime iterates it).
\<close>

datatype iface =
    INil
  | IBool bool
  | IString string
  | IList "iface list"
  | IMap "(string \<times> iface) list"

text \<open>
  A failed type assertion \<open>v.(T)\<close>, an index out of range and the dereference of a nil
  pointer panic.
\<close>

datatype panic = InterfaceConversion | IndexOutOfRange | NilDereference

text \<open>A Go call either returns or panics.\<close>

datatype 'a outcome = Return 'a | Panicked panic

text \<open>\<open>[]byte\<close>: a nil slice and an empty one both have length 0.\<close>

type_synonym bytes = "char list"

text \<open>The message of an error value that a library returned.\<close>

type_synonym liberr = string

text \<open>
  The error values of the provider: a library's error passed on unchanged, or one of the
  four \<open>fmt.Errorf\<close> messages of the provider.
\<close>

datatype error =
    LibError liberr
  | CouldNotReadX509KeyPair liberr
  | FailedToParseCaCertificate
  | FailedToConfigureKubernetes liberr
  | ErrorCreatingTunnel liberr

definition as_bool :: "iface \<Rightarrow> panic + bool" where
  "as_bool v = (case v of IBool b \<Rightarrow> Inr b | _ \<Rightarrow> Inl InterfaceConversion)"

definition as_string :: "iface \<Rightarrow> panic + string" where
  "as_string v = (case v of IString s \<Rightarrow> Inr s | _ \<Rightarrow> Inl InterfaceConversion)"

definition as_list :: "iface \<Rightarrow> panic + iface list" where
  "as_list v = (case v of IList xs \<Rightarrow> Inr xs | _ \<Rightarrow> Inl InterfaceConversion)"

text \<open>
  \<open>schema.ResourceData\<close>: the two accessors the provider calls. \<open>Get\<close> returns the
  value of a key, \<open>GetOk\<close> the value and whether it is set.
\<close>

record ResourceData =
  Get :: "string \<Rightarrow> iface"
  GetOk :: "string \<Rightarrow> iface \<times> bool"

section \<open>The Helm client's TLS configuration\<close>

text \<open>\<open>tls.Config\<close>, with the three fields that \<open>getTLSConfig\<close> sets.\<close>

record ('cert, 'pool) tls_Config =
  InsecureSkipVerify :: bool
  Certificates :: "'cert list"
  RootCAs :: "'pool option"

text \<open>
  The library calls of \<open>getTLSConfig\<close> and \<open>getContent\<close>:
  \<open>pathorcontents.Read\<close>, \<open>tls.X509KeyPair\<close>, \<open>x509.NewCertPool\<close> and
  \<open>(*CertPool).AppendCertsFromPEM\<close>, which returns the pool it extended and
  whether a certificate was parsed.
\<close>

record ('cert, 'pool) tls_lib =
  pathorcontents_Read :: "string \<Rightarrow> liberr + (string \<times> bool)"
  X509KeyPair :: "bytes \<Rightarrow> bytes \<Rightarrow> liberr + 'cert"
  NewCertPool :: "'pool"
  AppendCertsFromPEM :: "'pool \<Rightarrow> bytes \<Rightarrow> 'pool \<times> bool"

definition getContent ::
  "('cert, 'pool, 'z) tls_lib_scheme \<Rightarrow> ResourceData \<Rightarrow> string \<Rightarrow> string \<Rightarrow> (error + bytes) outcome"
where
  "getContent lib d key def =
     (case as_string (Get d key) of
        Inl p \<Rightarrow> Panicked p
      | Inr filename \<Rightarrow>
          (case pathorcontents_Read lib filename of
             Inl e \<Rightarrow> Return (Inl (LibError e))
           | Inr (content, _) \<Rightarrow>
               if content = def then Return (Inr []) else Return (Inr content)))"

definition getTLSConfig ::
  "('cert, 'pool, 'z) tls_lib_scheme \<Rightarrow> ResourceData
     \<Rightarrow> (error + ('cert, 'pool) tls_Config option) outcome"
where
  "getTLSConfig lib d =
     (case getContent lib d ''client_key'' ''$HELM_HOME/key.pem'' of
        Panicked p \<Rightarrow> Panicked p
      | Return (Inl e) \<Rightarrow> Return (Inl e)
      | Return (Inr keyPEMBlock) \<Rightarrow>
     (case getContent lib d ''client_certificate'' ''$HELM_HOME/cert.pem'' of
        Panicked p \<Rightarrow> Panicked p
      | Return (Inl e) \<Rightarrow> Return (Inl e)
      | Return (Inr certPEMBlock) \<Rightarrow>
          if length keyPEMBlock = 0 \<and> length certPEMBlock = 0 then Return (Inr None)
          else
     (case as_bool (Get d ''insecure'') of
        Inl p \<Rightarrow> Panicked p
      | Inr insecure \<Rightarrow>
     (let cfg = \<lparr>InsecureSkipVerify = insecure, Certificates = [], RootCAs = None\<rparr> in
      case X509KeyPair lib certPEMBlock keyPEMBlock of
        Inl e \<Rightarrow> Return (Inl (CouldNotReadX509KeyPair e))
      | Inr cert \<Rightarrow>
     (let cfg = cfg\<lparr>Certificates := [cert]\<rparr> in
      case getContent lib d ''ca_certificate'' ''$HELM_HOME/ca.pem'' of
        Panicked p \<Rightarrow> Panicked p
      | Return (Inl e) \<Rightarrow> Return (Inl e)
      | Return (Inr caPEMBlock) \<Rightarrow>
          if \<not> InsecureSkipVerify cfg \<and> length caPEMBlock \<noteq> 0 then
            (case AppendCertsFromPEM lib (NewCertPool lib) caPEMBlock of
               (pool, ok) \<Rightarrow>
                 if \<not> ok then Return (Inl FailedToParseCaCertificate)
                 else Return (Inr (Some (cfg\<lparr>RootCAs := Some pool\<rparr>))))
          else Return (Inr (Some cfg)))))))"

section \<open>The provider metadata and its builders\<close>

text \<open>
  What the builders do besides returning: the \<open>debug\<close> log lines, and the call of
  \<open>portforwarder.New\<close>, which opens a port-forward to Tiller in a namespace.
\<close>

datatype event =
    DebugCouldNotGetKubernetesConfig string liberr
  | PortforwarderNew string
  | DebugCreatedTunnel int

definition opens_portforward :: "event \<Rightarrow> bool" where
  "opens_portforward ev = (case ev of PortforwarderNew namespace \<Rightarrow> True | _ \<Rightarrow> False)"

text \<open>\<open>rest.Config\<close>, with the fields that \<open>buildK8sClient\<close> sets.\<close>

record rest_Config =
  Host :: string
  Username :: string
  Password :: string
  Insecure :: bool
  CAData :: bytes
  CertData :: bytes
  KeyData :: bytes
  UserAgent :: string

text \<open>\<open>&rest.Config{}\<close>: every field has its zero value.\<close>

definition rest_Config_zero :: rest_Config where
  "rest_Config_zero =
     \<lparr>Host = [], Username = [], Password = [], Insecure = False, CAData = [],
      CertData = [], KeyData = [], UserAgent = []\<rparr>"

text \<open>\<open>helm_env.EnvSettings\<close>, with the fields that \<open>buildSettings\<close> sets.\<close>

record EnvSettings =
  Home :: string
  TillerHost :: string
  TillerNamespace :: string
  Debug :: bool

text \<open>\<open>kube.Tunnel\<close>: the local port is what \<open>buildTunnel\<close> reads.\<close>

record kube_Tunnel =
  Local :: int
  Remote :: int
  PodName :: string

text \<open>The options given to \<open>helm.NewClient\<close>.\<close>

datatype ('cert, 'pool) helm_Option =
    helm_Host string
  | helm_WithTLS "('cert, 'pool) tls_Config"

text \<open>
  The other library calls of the builders: \<open>kube.GetConfig(ctx).ClientConfig()\<close>, which
  returns a configuration pointer and an error, each of which may be nil;
  \<open>terraform.VersionString\<close>; \<open>kubernetes.NewForConfig\<close>; \<open>portforwarder.New\<close>;
  \<open>helm.NewClient\<close>.
\<close>

record ('cert, 'pool, 'kc, 'hc) provider_lib = "('cert, 'pool) tls_lib" +
  kube_GetConfig_ClientConfig :: "string \<Rightarrow> rest_Config option \<times> liberr option"
  terraform_VersionString :: string
  kubernetes_NewForConfig :: "rest_Config \<Rightarrow> liberr + 'kc"
  portforwarder_New :: "string \<Rightarrow> 'kc option \<Rightarrow> rest_Config option \<Rightarrow> liberr + kube_Tunnel"
  helm_NewClient :: "('cert, 'pool) helm_Option list \<Rightarrow> 'hc"

text \<open>\<open>Meta\<close>: a nil pointer or interface is \<open>None\<close>.\<close>

record ('kc, 'hc) Meta =
  Settings :: "EnvSettings option"
  K8sClient :: "'kc option"
  K8sConfig :: "rest_Config option"
  HelmClient :: "'hc option"
  Tunnel :: "kube_Tunnel option"
  DefaultNamespace :: string

text \<open>\<open>&Meta{}\<close>.\<close>

definition Meta_zero :: "('kc, 'hc) Meta" where
  "Meta_zero =
     \<lparr>Settings = None, K8sClient = None, K8sConfig = None, HelmClient = None,
      Tunnel = None, DefaultNamespace = []\<rparr>"

text \<open>Sequencing of steps that may panic.\<close>

definition and_then :: "panic + 'a \<Rightarrow> ('a \<Rightarrow> panic + 'b) \<Rightarrow> panic + 'b" where
  "and_then r f = (case r of Inl p \<Rightarrow> Inl p | Inr x \<Rightarrow> f x)"

definition buildSettings :: "ResourceData \<Rightarrow> ('kc, 'hc) Meta \<Rightarrow> ('kc, 'hc) Meta outcome" where
  "buildSettings d m =
     (case and_then (as_string (Get d ''home'')) (\<lambda>home.
           and_then (as_string (Get d ''host'')) (\<lambda>host.
           and_then (as_string (Get d ''namespace'')) (\<lambda>namespace.
           and_then (as_bool (Get d ''debug'')) (\<lambda>debug.
             Inr \<lparr>Home = home, TillerHost = host, TillerNamespace = namespace,
                  Debug = debug\<rparr>)))) of
        Inl p \<Rightarrow> Panicked p
      | Inr settings \<Rightarrow> Return (m\<lparr>Settings := Some settings\<rparr>))"

text \<open>
  One static override: \<open>if v, ok := d.GetOk(key); ok { cfg.F = v.(T) }\<close>, for a string
  (or \<open>[]byte\<close>) field and for a bool field.
\<close>

definition override_string ::
  "ResourceData \<Rightarrow> string \<Rightarrow> (string \<Rightarrow> rest_Config \<Rightarrow> rest_Config) \<Rightarrow> rest_Config
     \<Rightarrow> panic + rest_Config"
where
  "override_string d key upd cfg =
     (case GetOk d key of
        (v, ok) \<Rightarrow>
          if ok then (case as_string v of Inl p \<Rightarrow> Inl p | Inr s \<Rightarrow> Inr (upd s cfg))
          else Inr cfg)"

definition override_bool ::
  "ResourceData \<Rightarrow> string \<Rightarrow> (bool \<Rightarrow> rest_Config \<Rightarrow> rest_Config) \<Rightarrow> rest_Config
     \<Rightarrow> panic + rest_Config"
where
  "override_bool d key upd cfg =
     (case GetOk d key of
        (v, ok) \<Rightarrow>
          if ok then (case as_bool v of Inl p \<Rightarrow> Inl p | Inr b \<Rightarrow> Inr (upd b cfg))
          else Inr cfg)"

text \<open>The seven overrides of \<open>buildK8sClient\<close>, in the order of the source.\<close>

definition static_overrides :: "ResourceData \<Rightarrow> rest_Config \<Rightarrow> panic + rest_Config" where
  "static_overrides d cfg =
     and_then (override_string d ''kubernetes.0.host'' (\<lambda>v c. c\<lparr>Host := v\<rparr>) cfg) (\<lambda>cfg.
     and_then (override_string d ''kubernetes.0.username'' (\<lambda>v c. c\<lparr>Username := v\<rparr>) cfg) (\<lambda>cfg.
     and_then (override_string d ''kubernetes.0.password'' (\<lambda>v c. c\<lparr>Password := v\<rparr>) cfg) (\<lambda>cfg.
     and_then (override_bool d ''kubernetes.0.insecure'' (\<lambda>v c. c\<lparr>Insecure := v\<rparr>) cfg) (\<lambda>cfg.
     and_then (override_string d ''kubernetes.0.cluster_ca_certificate''
                 (\<lambda>v c. c\<lparr>CAData := v\<rparr>) cfg) (\<lambda>cfg.
     and_then (override_string d ''kubernetes.0.client_certificate''
                 (\<lambda>v c. c\<lparr>CertData := v\<rparr>) cfg) (\<lambda>cfg.
     override_string d ''kubernetes.0.client_key'' (\<lambda>v c. c\<lparr>KeyData := v\<rparr>) cfg))))))"

text \<open>
  A method of \<open>*Meta\<close> that returns an \<open>error\<close>: the error (\<open>None\<close> is nil) and the
  metadata as the method leaves it, with the events of the call.
\<close>

type_synonym ('kc, 'hc) builder = "(error option \<times> ('kc, 'hc) Meta) outcome \<times> event list"

definition buildK8sClient ::
  "('cert, 'pool, 'kc, 'hc, 'z) provider_lib_scheme \<Rightarrow> ResourceData \<Rightarrow> ('kc, 'hc) Meta
     \<Rightarrow> ('kc, 'hc) builder"
where
  "buildK8sClient lib d m =
     (let hasStatic = snd (GetOk d ''kubernetes'') in
      case as_string (Get d ''kubernetes.0.config_context'') of
        Inl p \<Rightarrow> (Panicked p, [])
      | Inr ctx \<Rightarrow>
     (let after_GetConfig = (\<lambda>cfg log.
            let cfg = (case cfg of None \<Rightarrow> rest_Config_zero | Some c \<Rightarrow> c);
                cfg = cfg\<lparr>UserAgent :=
                        ''HashiCorp/1.0 Terraform/'' @ terraform_VersionString lib\<rparr>
            in case static_overrides d cfg of
                 Inl p \<Rightarrow> (Panicked p, log)
               | Inr cfg \<Rightarrow>
                   (case kubernetes_NewForConfig lib cfg of
                      Inl e \<Rightarrow>
                        (Return (Some (FailedToConfigureKubernetes e),
                                 m\<lparr>K8sConfig := Some cfg, K8sClient := None\<rparr>), log)
                    | Inr c \<Rightarrow>
                        (Return (None, m\<lparr>K8sConfig := Some cfg, K8sClient := Some c\<rparr>),
                         log)))
      in case kube_GetConfig_ClientConfig lib ctx of
           (cfg, Some err) \<Rightarrow>
             if hasStatic
             then (Return (Some (LibError err), m),
                   [DebugCouldNotGetKubernetesConfig ctx err])
             else after_GetConfig cfg [DebugCouldNotGetKubernetesConfig ctx err]
         | (cfg, None) \<Rightarrow> after_GetConfig cfg []))"

text \<open>\<open>fmt.Sprintf("%d", n)\<close>: the decimal digits of an integer.\<close>

definition digit :: "nat \<Rightarrow> char" where
  "digit n = ''0123456789'' ! n"

fun decimal :: "nat \<Rightarrow> string" where
  "decimal n = (if n < 10 then [digit n] else decimal (n div 10) @ [digit (n mod 10)])"

definition Sprintf_d :: "int \<Rightarrow> string" where
  "Sprintf_d i = (if i < 0 then CHR ''-'' # decimal (nat (- i)) else decimal (nat i))"

definition buildTunnel ::
  "('cert, 'pool, 'kc, 'hc, 'z) provider_lib_scheme \<Rightarrow> ResourceData \<Rightarrow> ('kc, 'hc) Meta
     \<Rightarrow> ('kc, 'hc) builder"
where
  "buildTunnel lib d m =
     (case Settings m of
        None \<Rightarrow> (Panicked NilDereference, [])
      | Some settings \<Rightarrow>
          if TillerHost settings \<noteq> [] then (Return (None, m), [])
          else
            (case portforwarder_New lib (TillerNamespace settings) (K8sClient m) (K8sConfig m) of
               Inl err \<Rightarrow>
                 (Return (Some (ErrorCreatingTunnel err), m),
                  [PortforwarderNew (TillerNamespace settings)])
             | Inr tunnel \<Rightarrow>
                 (Return (None,
                    m\<lparr>Settings :=
                        Some (settings\<lparr>TillerHost := ''localhost:'' @ Sprintf_d (Local tunnel)\<rparr>)\<rparr>),
                  [PortforwarderNew (TillerNamespace settings),
                   DebugCreatedTunnel (Local tunnel)])))"

definition buildHelmClient ::
  "('cert, 'pool, 'kc, 'hc, 'z) provider_lib_scheme \<Rightarrow> ResourceData \<Rightarrow> ('kc, 'hc) Meta
     \<Rightarrow> ('kc, 'hc) builder"
where
  "buildHelmClient lib d m =
     (case Settings m of
        None \<Rightarrow> (Panicked NilDereference, [])
      | Some settings \<Rightarrow>
     (let options = [helm_Host (TillerHost settings)] in
      case getTLSConfig lib d of
        Panicked p \<Rightarrow> (Panicked p, [])
      | Return (Inl err) \<Rightarrow> (Return (Some err, m), [])
      | Return (Inr tlscfg) \<Rightarrow>
     (let options = (case tlscfg of None \<Rightarrow> options | Some c \<Rightarrow> options @ [helm_WithTLS c])
      in (Return (None, m\<lparr>HelmClient := Some (helm_NewClient lib options)\<rparr>), []))))"

text \<open>\<open>buildMeta\<close> returns the metadata or an error.\<close>

definition buildMeta ::
  "('cert, 'pool, 'kc, 'hc, 'z) provider_lib_scheme \<Rightarrow> ResourceData
     \<Rightarrow> (error + ('kc, 'hc) Meta) outcome \<times> event list"
where
  "buildMeta lib d =
     (case buildSettings d Meta_zero of
        Panicked p \<Rightarrow> (Panicked p, [])
      | Return m \<Rightarrow>
     (case buildK8sClient lib d m of
        (Panicked p, ev1) \<Rightarrow> (Panicked p, ev1)
      | (Return (Some err, m), ev1) \<Rightarrow> (Return (Inl err), ev1)
      | (Return (None, m), ev1) \<Rightarrow>
     (case buildTunnel lib d m of
        (Panicked p, ev2) \<Rightarrow> (Panicked p, ev1 @ ev2)
      | (Return (Some err, m), ev2) \<Rightarrow> (Return (Inl err), ev1 @ ev2)
      | (Return (None, m), ev2) \<Rightarrow>
     (case buildHelmClient lib d m of
        (Panicked p, ev3) \<Rightarrow> (Panicked p, ev1 @ ev2 @ ev3)
      | (Return (Some err, m), ev3) \<Rightarrow> (Return (Inl err), ev1 @ ev2 @ ev3)
      | (Return (None, m), ev3) \<Rightarrow> (Return (Inr m), ev1 @ ev2 @ ev3)))))"


section \<open>The provider schema\<close>

text \<open>
  The types that \<open>Provider\<close> declares for the settings, the nested block
  \<open>kubernetes\<close> under the addresses by which the builders read it.
\<close>

datatype schema_type = TypeString | TypeBool | TypeList

definition provider_schema :: "(string \<times> schema_type) list" where
  "provider_schema =
     [(''host'', TypeString),
      (''home'', TypeString),
      (''namespace'', TypeString),
      (''debug'', TypeBool),
      (''plugins_disable'', TypeBool),
      (''insecure'', TypeBool),
      (''client_key'', TypeString),
      (''client_certificate'', TypeString),
      (''ca_certificate'', TypeString),
      (''kubernetes'', TypeList),
      (''kubernetes.0.host'', TypeString),
      (''kubernetes.0.username'', TypeString),
      (''kubernetes.0.password'', TypeString),
      (''kubernetes.0.insecure'', TypeBool),
      (''kubernetes.0.client_certificate'', TypeString),
      (''kubernetes.0.client_key'', TypeString),
      (''kubernetes.0.cluster_ca_certificate'', TypeString),
      (''kubernetes.0.config_path'', TypeString),
      (''kubernetes.0.config_context'', TypeString)]"

text \<open>The Go value that the host stores for a setting of a schema type.\<close>

fun has_type :: "schema_type \<Rightarrow> iface \<Rightarrow> bool" where
  "has_type TypeString (IString s) = True"
| "has_type TypeBool (IBool b) = True"
| "has_type TypeList (IList xs) = True"
| "has_type _ _ = False"

text \<open>A \<open>ResourceData\<close> that the host built from the schema.\<close>

definition conforms :: "ResourceData \<Rightarrow> bool" where
  "conforms d =
     list_all (\<lambda>(key, t). has_type t (Get d key) \<and> has_type t (fst (GetOk d key)))
       provider_schema"


section \<open>The kubeconfig resolver\<close>

text \<open>
  The structs of \<open>clientcmdapi\<close> and \<open>clientcmd\<close> that the resolver fills, with the
  fields it touches. A field that is not set has the zero value of its type.
\<close>

record api_Context =
  ctx_Cluster :: string
  ctx_AuthInfo :: string
  ctx_Namespace :: string

record ExecEnvVar =
  Name :: string
  Value :: string

record ExecConfig =
  Command :: string
  Args :: "string list"
  Env :: "ExecEnvVar list"
  APIVersion :: string

record api_AuthInfo =
  ClientCertificateData :: bytes
  ClientKeyData :: bytes
  Token :: string
  auth_Username :: string
  auth_Password :: string
  Exec :: "ExecConfig option"

record api_Cluster =
  Server :: string
  InsecureSkipTLSVerify :: bool
  CertificateAuthorityData :: bytes

record ConfigOverrides =
  AuthInfo :: api_AuthInfo
  ClusterInfo :: api_Cluster
  Context :: api_Context
  CurrentContext :: string

record ClientConfigLoadingRules =
  ExplicitPath :: string

record GroupVersion =
  Group :: string
  Version :: string

text \<open>\<open>clientcmdapi.Context{}\<close>, \<open>&clientcmdapi.ExecConfig{}\<close>,
  \<open>&clientcmd.ConfigOverrides{}\<close>, \<open>&clientcmd.ClientConfigLoadingRules{}\<close> and
  \<open>apimachineryschema.GroupVersion{}\<close>.\<close>

definition api_Context_zero :: api_Context where
  "api_Context_zero = \<lparr>ctx_Cluster = [], ctx_AuthInfo = [], ctx_Namespace = []\<rparr>"

definition ExecConfig_zero :: ExecConfig where
  "ExecConfig_zero = \<lparr>Command = [], Args = [], Env = [], APIVersion = []\<rparr>"

definition ConfigOverrides_zero :: ConfigOverrides where
  "ConfigOverrides_zero =
     \<lparr>AuthInfo = \<lparr>ClientCertificateData = [], ClientKeyData = [], Token = [],
                   auth_Username = [], auth_Password = [], Exec = None\<rparr>,
      ClusterInfo = \<lparr>Server = [], InsecureSkipTLSVerify = False,
                      CertificateAuthorityData = []\<rparr>,
      Context = api_Context_zero,
      CurrentContext = []\<rparr>"

definition ClientConfigLoadingRules_zero :: ClientConfigLoadingRules where
  "ClientConfigLoadingRules_zero = \<lparr>ExplicitPath = []\<rparr>"

definition GroupVersion_zero :: GroupVersion where
  "GroupVersion_zero = \<lparr>Group = [], Version = []\<rparr>"

text \<open>The lines that the resolver writes with \<open>log.Printf\<close>.\<close>

datatype log_line =
    DebugUsingCustomCurrentContext string
  | DebugUsingOveriddenContext api_Context
  | ErrorFailedToParseExec
  | ErrorFailedToInitializeKubernetesConfig
  | InfoSuccessfullyInitializedConfig

text \<open>
  What the resolver calls and \<open>structure_kubeconfig.go\<close> does not define: the
  package's helpers \<open>k8sGet\<close>, \<open>k8sGetOk\<close> and \<open>expandStringSlice\<close>, and the library
  functions \<open>homedir.Expand\<close>, \<open>rest.DefaultServerURL\<close>, \<open>(*url.URL).String\<close> and
  \<open>clientcmd.NewNonInteractiveDeferredLoadingClientConfig\<close>, whose result may be nil.
\<close>

record ('url, 'cc) kube_lib =
  k8sGet :: "ResourceData \<Rightarrow> string \<Rightarrow> iface"
  k8sGetOk :: "ResourceData \<Rightarrow> string \<Rightarrow> iface \<times> bool"
  expandStringSlice :: "iface list \<Rightarrow> string list outcome"
  homedir_Expand :: "string \<Rightarrow> liberr + string"
  rest_DefaultServerURL ::
    "string \<Rightarrow> string \<Rightarrow> GroupVersion \<Rightarrow> bool \<Rightarrow> liberr + ('url \<times> string)"
  url_String :: "'url \<Rightarrow> string"
  NewNonInteractiveDeferredLoadingClientConfig ::
    "ClientConfigLoadingRules \<Rightarrow> ConfigOverrides \<Rightarrow> 'cc option"

text \<open>\<open>KubeConfig\<close>; the mutex has no state between calls that run one after another.\<close>

record 'cc KubeConfig =
  ConfigData :: ResourceData
  Namespace :: "string option"
  clientConfig :: "'cc option"

text \<open>
  The local variables of \<open>toRawKubeConfigLoader\<close> and the lines logged so far. A
  statement of the function either goes on to the next one, or returns nil, or panics.
\<close>

record locals =
  overrides :: ConfigOverrides
  loader :: ClientConfigLoadingRules
  logged :: "log_line list"

datatype flow = Next locals | ReturnNil "log_line list" | Panics panic "log_line list"

definition then_do :: "flow \<Rightarrow> (locals \<Rightarrow> flow) \<Rightarrow> flow" where
  "then_do f g = (case f of Next s \<Rightarrow> g s | ReturnNil l \<Rightarrow> ReturnNil l | Panics p l \<Rightarrow> Panics p l)"

definition as_map :: "iface \<Rightarrow> panic + (string \<times> iface) list" where
  "as_map v = (case v of IMap kvs \<Rightarrow> Inr kvs | _ \<Rightarrow> Inl InterfaceConversion)"

text \<open>\<open>spec[key]\<close>: a key that the map does not have gives the nil interface.\<close>

definition index_map :: "(string \<times> iface) list \<Rightarrow> string \<Rightarrow> iface" where
  "index_map spec key = (case map_of spec key of None \<Rightarrow> INil | Some v \<Rightarrow> v)"

text \<open>
  Lines 86 to 103: the context selection, once the kubeconfig path is in the loading
  rules.
\<close>

definition context_overrides :: "('url, 'cc, 'z) kube_lib_scheme \<Rightarrow> 'cc KubeConfig \<Rightarrow> locals \<Rightarrow> flow" where
  "context_overrides lib k s =
     (case k8sGetOk lib (ConfigData k) ''config_context'' of (ctx, ctxOk) \<Rightarrow>
      case k8sGetOk lib (ConfigData k) ''config_context_auth_info'' of (authInfo, authInfoOk) \<Rightarrow>
      case k8sGetOk lib (ConfigData k) ''config_context_cluster'' of (cluster, clusterOk) \<Rightarrow>
        if ctxOk \<or> authInfoOk \<or> clusterOk then
          then_do
            (if ctxOk then
               (case as_string ctx of
                  Inl p \<Rightarrow> Panics p (logged s)
                | Inr c \<Rightarrow>
                    Next (s\<lparr>overrides := (overrides s)\<lparr>CurrentContext := c\<rparr>,
                            logged := logged s @ [DebugUsingCustomCurrentContext c]\<rparr>))
             else Next s) (\<lambda>s.
          then_do (Next (s\<lparr>overrides := (overrides s)\<lparr>Context := api_Context_zero\<rparr>\<rparr>)) (\<lambda>s.
          then_do
            (if authInfoOk then
               (case as_string authInfo of
                  Inl p \<Rightarrow> Panics p (logged s)
                | Inr a \<Rightarrow>
                    Next (s\<lparr>overrides :=
                              (overrides s)\<lparr>Context := (Context (overrides s))\<lparr>ctx_AuthInfo := a\<rparr>\<rparr>\<rparr>))
             else Next s) (\<lambda>s.
          then_do
            (if clusterOk then
               (case as_string cluster of
                  Inl p \<Rightarrow> Panics p (logged s)
                | Inr c \<Rightarrow>
                    Next (s\<lparr>overrides :=
                              (overrides s)\<lparr>Context := (Context (overrides s))\<lparr>ctx_Cluster := c\<rparr>\<rparr>\<rparr>))
             else Next s) (\<lambda>s.
          Next (s\<lparr>logged := logged s @ [DebugUsingOveriddenContext (Context (overrides s))]\<rparr>)))))
        else Next s)"

text \<open>Lines 78 to 105.\<close>

definition load_config_file :: "('url, 'cc, 'z) kube_lib_scheme \<Rightarrow> 'cc KubeConfig \<Rightarrow> locals \<Rightarrow> flow" where
  "load_config_file lib k s =
     (case as_bool (k8sGet lib (ConfigData k) ''load_config_file'') of
        Inl p \<Rightarrow> Panics p (logged s)
      | Inr load \<Rightarrow>
          if load then
            (case k8sGetOk lib (ConfigData k) ''config_path'' of (configPath, ok) \<Rightarrow>
               if ok then
                 (case as_string configPath of
                    Inl p \<Rightarrow> Panics p (logged s)
                  | Inr configPath \<Rightarrow>
                      if configPath \<noteq> [] then
                        (case homedir_Expand lib configPath of
                           Inl err \<Rightarrow> ReturnNil (logged s)
                         | Inr path \<Rightarrow>
                             context_overrides lib k
                               (s\<lparr>loader := (loader s)\<lparr>ExplicitPath := path\<rparr>\<rparr>))
                      else Next s)
               else Next s)
          else Next s)"

text \<open>
  One static override: \<open>if v, ok := k8sGetOk(k.ConfigData, key); ok { overrides.F = v.(T) }\<close>.
\<close>

definition override_with ::
  "('url, 'cc, 'z) kube_lib_scheme \<Rightarrow> 'cc KubeConfig \<Rightarrow> string \<Rightarrow> (iface \<Rightarrow> panic + 'v)
     \<Rightarrow> ('v \<Rightarrow> ConfigOverrides \<Rightarrow> ConfigOverrides) \<Rightarrow> locals \<Rightarrow> flow"
where
  "override_with lib k key assert upd s =
     (case k8sGetOk lib (ConfigData k) key of (v, ok) \<Rightarrow>
        if ok then
          (case assert v of
             Inl p \<Rightarrow> Panics p (logged s)
           | Inr x \<Rightarrow> Next (s\<lparr>overrides := upd x (overrides s)\<rparr>))
        else Next s)"

text \<open>Lines 117 to 131.\<close>

definition host_override :: "('url, 'cc, 'z) kube_lib_scheme \<Rightarrow> 'cc KubeConfig \<Rightarrow> locals \<Rightarrow> flow" where
  "host_override lib k s =
     (case k8sGetOk lib (ConfigData k) ''host'' of (v, ok) \<Rightarrow>
        if ok then
          (let hasCA = length (CertificateAuthorityData (ClusterInfo (overrides s))) \<noteq> 0;
               hasCert = length (ClientCertificateData (AuthInfo (overrides s))) \<noteq> 0;
               defaultTLS = (hasCA \<or> hasCert \<or> InsecureSkipTLSVerify (ClusterInfo (overrides s)))
           in case as_string v of
                Inl p \<Rightarrow> Panics p (logged s)
              | Inr h \<Rightarrow>
                  (case rest_DefaultServerURL lib h [] GroupVersion_zero defaultTLS of
                     Inl err \<Rightarrow> ReturnNil (logged s)
                   | Inr (host, _) \<Rightarrow>
                       Next (s\<lparr>overrides :=
                                 (overrides s)\<lparr>ClusterInfo :=
                                    (ClusterInfo (overrides s))\<lparr>Server := url_String lib host\<rparr>\<rparr>\<rparr>)))
        else Next s)"

text \<open>Lines 151 to 153: the loop over \<open>spec["env"]\<close>.\<close>

fun exec_env :: "(string \<times> iface) list \<Rightarrow> ExecEnvVar list \<Rightarrow> panic + ExecEnvVar list" where
  "exec_env [] env = Inr env"
| "exec_env ((kk, vv) # rest) env =
     (case as_string vv of
        Inl p \<Rightarrow> Inl p
      | Inr s \<Rightarrow> exec_env rest (env @ [\<lparr>Name = kk, Value = s\<rparr>]))"

text \<open>Lines 148 to 153: the fields of the exec configuration, from a spec that is a map.\<close>

definition exec_config ::
  "('url, 'cc, 'z) kube_lib_scheme \<Rightarrow> (string \<times> iface) list \<Rightarrow> ExecConfig outcome"
where
  "exec_config lib spec =
     (case as_string (index_map spec ''api_version'') of
        Inl p \<Rightarrow> Panicked p
      | Inr apiVersion \<Rightarrow>
     (case as_string (index_map spec ''command'') of
        Inl p \<Rightarrow> Panicked p
      | Inr command \<Rightarrow>
     (case as_list (index_map spec ''args'') of
        Inl p \<Rightarrow> Panicked p
      | Inr args \<Rightarrow>
     (case expandStringSlice lib args of
        Panicked p \<Rightarrow> Panicked p
      | Return args \<Rightarrow>
     (case as_map (index_map spec ''env'') of
        Inl p \<Rightarrow> Panicked p
      | Inr env \<Rightarrow>
     (case exec_env env [] of
        Inl p \<Rightarrow> Panicked p
      | Inr env \<Rightarrow>
          Return (ExecConfig_zero\<lparr>APIVersion := apiVersion, Command := command,
                                  Args := args, Env := env\<rparr>)))))))"

text \<open>Lines 145 to 159.\<close>

definition exec_override :: "('url, 'cc, 'z) kube_lib_scheme \<Rightarrow> 'cc KubeConfig \<Rightarrow> locals \<Rightarrow> flow" where
  "exec_override lib k s =
     (case k8sGetOk lib (ConfigData k) ''exec'' of (v, ok) \<Rightarrow>
        if ok then
          (case as_list v of
             Inl p \<Rightarrow> Panics p (logged s)
           | Inr [] \<Rightarrow> Panics IndexOutOfRange (logged s)
           | Inr (IMap spec # _) \<Rightarrow>
               (case exec_config lib spec of
                  Panicked p \<Rightarrow> Panics p (logged s)
                | Return exec \<Rightarrow>
                    Next (s\<lparr>overrides :=
                              (overrides s)\<lparr>AuthInfo := (AuthInfo (overrides s))\<lparr>Exec := Some exec\<rparr>\<rparr>\<rparr>))
           | Inr (_ # _) \<Rightarrow> ReturnNil (logged s @ [ErrorFailedToParseExec]))
        else Next s)"

text \<open>Lines 161 to 165.\<close>

definition namespace_override :: "'cc KubeConfig \<Rightarrow> locals \<Rightarrow> flow" where
  "namespace_override k s =
     (let s = s\<lparr>overrides :=
                  (overrides s)\<lparr>Context := (Context (overrides s))\<lparr>ctx_Namespace := ''default''\<rparr>\<rparr>\<rparr>
      in case Namespace k of
           None \<Rightarrow> Next s
         | Some namespace \<Rightarrow>
             Next (s\<lparr>overrides :=
                       (overrides s)\<lparr>Context :=
                          (Context (overrides s))\<lparr>ctx_Namespace := namespace\<rparr>\<rparr>\<rparr>))"

text \<open>
  Lines 75 to 143 of \<open>toRawKubeConfigLoader\<close>: the loading rules and the overrides
  before the exec specification is looked at.
\<close>

definition overrides_before_exec ::
  "('url, 'cc, 'z) kube_lib_scheme \<Rightarrow> 'cc KubeConfig \<Rightarrow> flow"
where
  "overrides_before_exec lib k =
     then_do (load_config_file lib k
                \<lparr>overrides = ConfigOverrides_zero, loader = ClientConfigLoadingRules_zero,
                 logged = []\<rparr>) (\<lambda>s.
     then_do (override_with lib k ''insecure'' as_bool
                (\<lambda>v ov. ov\<lparr>ClusterInfo := (ClusterInfo ov)\<lparr>InsecureSkipTLSVerify := v\<rparr>\<rparr>) s) (\<lambda>s.
     then_do (override_with lib k ''cluster_ca_certificate'' as_string
                (\<lambda>v ov. ov\<lparr>ClusterInfo := (ClusterInfo ov)\<lparr>CertificateAuthorityData := v\<rparr>\<rparr>) s) (\<lambda>s.
     then_do (override_with lib k ''client_certificate'' as_string
                (\<lambda>v ov. ov\<lparr>AuthInfo := (AuthInfo ov)\<lparr>ClientCertificateData := v\<rparr>\<rparr>) s) (\<lambda>s.
     then_do (host_override lib k s) (\<lambda>s.
     then_do (override_with lib k ''username'' as_string
                (\<lambda>v ov. ov\<lparr>AuthInfo := (AuthInfo ov)\<lparr>auth_Username := v\<rparr>\<rparr>) s) (\<lambda>s.
     then_do (override_with lib k ''password'' as_string
                (\<lambda>v ov. ov\<lparr>AuthInfo := (AuthInfo ov)\<lparr>auth_Password := v\<rparr>\<rparr>) s) (\<lambda>s.
     then_do (override_with lib k ''client_key'' as_string
                (\<lambda>v ov. ov\<lparr>AuthInfo := (AuthInfo ov)\<lparr>ClientKeyData := v\<rparr>\<rparr>) s) (\<lambda>s.
     override_with lib k ''token'' as_string
       (\<lambda>v ov. ov\<lparr>AuthInfo := (AuthInfo ov)\<lparr>Token := v\<rparr>\<rparr>) s))))))))"

text \<open>
  Lines 75 to 165: the loading rules and the overrides, as they are when the client
  configuration is constructed.
\<close>

definition build_overrides :: "('url, 'cc, 'z) kube_lib_scheme \<Rightarrow> 'cc KubeConfig \<Rightarrow> flow" where
  "build_overrides lib k =
     then_do (overrides_before_exec lib k) (\<lambda>s.
     then_do (exec_override lib k s) (\<lambda>s.
     namespace_override k s))"

definition toRawKubeConfigLoader ::
  "('url, 'cc, 'z) kube_lib_scheme \<Rightarrow> 'cc KubeConfig \<Rightarrow> 'cc option outcome \<times> log_line list"
where
  "toRawKubeConfigLoader lib k =
     (case build_overrides lib k of
        Panics p l \<Rightarrow> (Panicked p, l)
      | ReturnNil l \<Rightarrow> (Return None, l)
      | Next s \<Rightarrow>
          (case NewNonInteractiveDeferredLoadingClientConfig lib (loader s) (overrides s) of
             None \<Rightarrow> (Return None, logged s @ [ErrorFailedToInitializeKubernetesConfig])
           | Some cfg \<Rightarrow> (Return (Some cfg), logged s @ [InfoSuccessfullyInitializedConfig])))"

text \<open>
  \<open>ToRawKubeConfigLoader\<close>: the loader returned, the \<open>KubeConfig\<close> as the call leaves
  it, and the lines logged.
\<close>

definition ToRawKubeConfigLoader ::
  "('url, 'cc, 'z) kube_lib_scheme \<Rightarrow> 'cc KubeConfig
     \<Rightarrow> 'cc option outcome \<times> 'cc KubeConfig \<times> log_line list"
where
  "ToRawKubeConfigLoader lib k =
     (if clientConfig k = None then
        (case toRawKubeConfigLoader lib k of
           (Panicked p, l) \<Rightarrow> (Panicked p, k, l)
         | (Return cfg, l) \<Rightarrow> (Return cfg, k\<lparr>clientConfig := cfg\<rparr>, l))
      else (Return (clientConfig k), k, []))"

text \<open>
  Calls of \<open>ToRawKubeConfigLoader\<close> on one \<open>KubeConfig\<close>, one after the other, each in
  the environment it finds: the loader and the log lines of each call.
\<close>

fun successive_calls ::
  "('url, 'cc, 'z) kube_lib_scheme list \<Rightarrow> 'cc KubeConfig
     \<Rightarrow> ('cc option outcome \<times> log_line list) list"
where
  "successive_calls [] k = []"
| "successive_calls (lib # libs) k =
     (case ToRawKubeConfigLoader lib k of
        (r, k', l) \<Rightarrow> (r, l) # successive_calls libs k')"


section \<open>The rule for an override field\<close>

text \<open>
  The rule by which the specification describes an override field: when the setting is
  present (\<open>k8sGetOk\<close> answers true), the field is the setting's value; when it is
  absent, the field has the value \<open>unset\<close> that it has in an empty overrides object.
\<close>

definition copied_or_unset :: "iface \<times> bool \<Rightarrow> iface \<Rightarrow> iface \<Rightarrow> bool" where
  "copied_or_unset setting unset field =
     (if snd setting then field = fst setting else field = unset)"

text \<open>
  The condition under which the resolver looks at the context selection: the
  kubeconfig file is to be loaded and a non-empty path to it is present.
\<close>

definition loads_config_file :: "('url, 'cc, 'z) kube_lib_scheme \<Rightarrow> 'cc KubeConfig \<Rightarrow> bool" where
  "loads_config_file lib k =
     (k8sGet lib (ConfigData k) ''load_config_file'' = IBool True \<and>
      snd (k8sGetOk lib (ConfigData k) ''config_path'') \<and>
      fst (k8sGetOk lib (ConfigData k) ''config_path'') \<noteq> IString [])"

text \<open>
  The condition under which the specification asks for secure defaults in the server
  URL: CA certificate data or client certificate data that is present and not empty, or
  the insecure flag present and true.
\<close>

definition secure_defaults :: "('url, 'cc, 'z) kube_lib_scheme \<Rightarrow> 'cc KubeConfig \<Rightarrow> bool" where
  "secure_defaults lib k =
     ((snd (k8sGetOk lib (ConfigData k) ''cluster_ca_certificate'') \<and>
       fst (k8sGetOk lib (ConfigData k) ''cluster_ca_certificate'') \<noteq> IString []) \<or>
      (snd (k8sGetOk lib (ConfigData k) ''client_certificate'') \<and>
       fst (k8sGetOk lib (ConfigData k) ''client_certificate'') \<noteq> IString []) \<or>
      k8sGetOk lib (ConfigData k) ''insecure'' = (IBool True, True))"

text \<open>
  \<open>(*schema.ResourceData).GetOk\<close> reports a setting as present when it is set to a
  value that is not the zero value of its type.
\<close>

definition nonzero :: "iface \<Rightarrow> bool" where
  "nonzero v =
     (case v of INil \<Rightarrow> False | IBool b \<Rightarrow> b | IString s \<Rightarrow> s \<noteq> [] | IList xs \<Rightarrow> xs \<noteq> []
      | IMap kvs \<Rightarrow> kvs \<noteq> [])"

text \<open>
  The helper \<open>k8sGetOk\<close> does so for the three settings that decide the secure
  defaults.
\<close>

definition reports_set_values :: "('url, 'cc, 'z) kube_lib_scheme \<Rightarrow> 'cc KubeConfig \<Rightarrow> bool" where
  "reports_set_values lib k =
     list_all (\<lambda>key. snd (k8sGetOk lib (ConfigData k) key) \<longrightarrow>
                       nonzero (fst (k8sGetOk lib (ConfigData k) key)))
       [''cluster_ca_certificate'', ''client_certificate'', ''insecure'']"

text \<open>
  An exec configuration that holds the fields of a specification as they are: the API
  version, the command, the arguments as \<open>expandStringSlice\<close> gives them, and one
  environment variable for each entry of \<open>env\<close>, in the order of the map.
\<close>

definition exec_copied ::
  "('url, 'cc, 'z) kube_lib_scheme \<Rightarrow> (string \<times> iface) list \<Rightarrow> ExecConfig \<Rightarrow> bool"
where
  "exec_copied lib spec exec =
     (index_map spec ''api_version'' = IString (APIVersion exec) \<and>
      index_map spec ''command'' = IString (Command exec) \<and>
      (case index_map spec ''args'' of
         IList args \<Rightarrow> expandStringSlice lib args = Return (Args exec)
       | _ \<Rightarrow> False) \<and>
      index_map spec ''env'' = IMap (map (\<lambda>e. (Name e, IString (Value e))) (Env exec)))"


section \<open>A concrete environment\<close>

text \<open>
  Library functions and settings on which the builders can be run: \<open>GetOk\<close> reports a
  setting that is present and not the zero value of its type; no kubeconfig can be
  loaded; the files named by the settings do not exist, so that the settings are read as
  contents; the only valid key pair is \<open>CERT\<close> with \<open>KEY\<close> and the only CA bundle that
  parses is \<open>CA\<close>; Tiller runs in \<open>kube-system\<close> only.
\<close>

definition ResourceData_of :: "(string \<times> iface) list \<Rightarrow> ResourceData" where
  "ResourceData_of kvs =
     \<lparr>Get = (\<lambda>key. case map_of kvs key of None \<Rightarrow> INil | Some v \<Rightarrow> v),
      GetOk = (\<lambda>key. case map_of kvs key of None \<Rightarrow> (INil, False) | Some v \<Rightarrow> (v, nonzero v))\<rparr>"

definition demo_lib ::
  "(bytes \<times> bytes, bytes list, rest_Config, (bytes \<times> bytes, bytes list) helm_Option list)
     provider_lib"
where
  "demo_lib =
     \<lparr>pathorcontents_Read = (\<lambda>poc. Inr (poc, False)),
      X509KeyPair = (\<lambda>cert key.
        if cert = ''CERT'' \<and> key = ''KEY'' then Inr (cert, key)
        else Inl ''tls: failed to find any PEM data in certificate input''),
      NewCertPool = [],
      AppendCertsFromPEM = (\<lambda>pool pem.
        if pem = ''CA'' then (pool @ [pem], True) else (pool, False)),
      kube_GetConfig_ClientConfig = (\<lambda>ctx. (None, Some ''no configuration has been provided'')),
      terraform_VersionString = ''0.12.0'',
      kubernetes_NewForConfig = (\<lambda>cfg. Inr cfg),
      portforwarder_New = (\<lambda>namespace client config.
        if namespace = ''kube-system'' then Inr \<lparr>Local = 44134, Remote = 44134, PodName = ''tiller''\<rparr>
        else Inl ''could not find tiller''),
      helm_NewClient = (\<lambda>options. options)\<rparr>"

definition demo_data :: "(string \<times> iface) list" where
  "demo_data =
     [(''host'', IString ''''),
      (''home'', IString ''/root/.helm''),
      (''namespace'', IString ''kube-system''),
      (''debug'', IBool False),
      (''plugins_disable'', IBool True),
      (''insecure'', IBool False),
      (''client_key'', IString ''KEY''),
      (''client_certificate'', IString ''CERT''),
      (''ca_certificate'', IString ''$HELM_HOME/ca.pem''),
      (''kubernetes'', IList []),
      (''kubernetes.0.host'', IString ''''),
      (''kubernetes.0.username'', IString ''''),
      (''kubernetes.0.password'', IString ''''),
      (''kubernetes.0.insecure'', IBool False),
      (''kubernetes.0.client_certificate'', IString ''''),
      (''kubernetes.0.client_key'', IString ''''),
      (''kubernetes.0.cluster_ca_certificate'', IString ''''),
      (''kubernetes.0.config_path'', IString ''~/.kube/config''),
      (''kubernetes.0.config_context'', IString '''')]"


text \<open>
  The metadata after \<open>buildSettings\<close> and \<open>buildK8sClient\<close> have run on such settings,
  for a Tiller host and a Tiller namespace.
\<close>

definition demo_settings :: "string \<Rightarrow> string \<Rightarrow> EnvSettings" where
  "demo_settings host namespace =
     \<lparr>Home = ''/root/.helm'', TillerHost = host, TillerNamespace = namespace, Debug = False\<rparr>"

definition demo_config :: rest_Config where
  "demo_config = rest_Config_zero\<lparr>UserAgent := ''HashiCorp/1.0 Terraform/0.12.0''\<rparr>"

type_synonym demo_Meta = "(rest_Config, (bytes \<times> bytes, bytes list) helm_Option list) Meta"

definition demo_meta :: "string \<Rightarrow> string \<Rightarrow> demo_Meta" where
  "demo_meta host namespace =
     \<lparr>Settings = Some (demo_settings host namespace), K8sClient = Some demo_config,
      K8sConfig = Some demo_config, HelmClient = None, Tunnel = None, DefaultNamespace = []\<rparr>"

text \<open>
  An environment for the resolver: the helpers read the \<open>kubernetes\<close> block; a leading
  \<open>~\<close> of a path is the home directory \<open>/root\<close>; a host with no scheme gets
  \<open>https://\<close> under secure defaults and \<open>http://\<close> otherwise, and an empty host is
  an error; the client configuration is the pair of the loading rules and the overrides.
\<close>

definition demo_kube_lib ::
  "(string, ClientConfigLoadingRules \<times> ConfigOverrides) kube_lib"
where
  "demo_kube_lib =
     \<lparr>k8sGet = (\<lambda>d key. Get d (''kubernetes.0.'' @ key)),
      k8sGetOk = (\<lambda>d key. GetOk d (''kubernetes.0.'' @ key)),
      expandStringSlice = (\<lambda>vs. Return (map (\<lambda>v. case v of IString s \<Rightarrow> s | _ \<Rightarrow> []) vs)),
      homedir_Expand = (\<lambda>path. case path of
                          c # rest \<Rightarrow> if c = CHR ''~'' then Inr (''/root'' @ rest) else Inr path
                        | [] \<Rightarrow> Inr path),
      rest_DefaultServerURL = (\<lambda>host apiPath groupVersion defaultTLS.
        if host = [] then Inl ''host must be a URL or a host:port pair''
        else Inr ((if defaultTLS then ''https://'' else ''http://'') @ host, [])),
      url_String = (\<lambda>url. url),
      NewNonInteractiveDeferredLoadingClientConfig = (\<lambda>rules ov. Some (rules, ov))\<rparr>"

text \<open>
  A \<open>KubeConfig\<close> over settings of the \<open>kubernetes\<close> block, with no namespace and
  nothing resolved yet.
\<close>

definition demo_KubeConfig ::
  "(string \<times> iface) list \<Rightarrow> (ClientConfigLoadingRules \<times> ConfigOverrides) KubeConfig"
where
  "demo_KubeConfig kvs =
     \<lparr>ConfigData = ResourceData_of kvs, Namespace = None, clientConfig = None\<rparr>"

text \<open>
  Settings of the \<open>kubernetes\<close> block: a static configuration with a host and a client
  certificate and no kubeconfig file, and a kubeconfig file with a host and an exec
  specification whose first element is given.
\<close>

definition demo_static :: "(string \<times> iface) list" where
  "demo_static =
     [(''kubernetes.0.load_config_file'', IBool False),
      (''kubernetes.0.host'', IString ''10.0.0.1:6443''),
      (''kubernetes.0.client_certificate'', IString ''CERT''),
      (''kubernetes.0.config_context'', IString ''prod'')]"

definition demo_exec :: "iface \<Rightarrow> (string \<times> iface) list" where
  "demo_exec spec =
     [(''kubernetes.0.load_config_file'', IBool True),
      (''kubernetes.0.config_path'', IString ''~/.kube/config''),
      (''kubernetes.0.host'', IString ''10.0.0.1:6443''),
      (''kubernetes.0.exec'', IList [spec]),
      (''kubernetes.0.config_context'', IString ''prod'')]"

definition demo_spec :: iface where
  "demo_spec =
     IMap [(''api_version'', IString ''v1''), (''command'', IString ''aws''),
           (''args'', IList [IString ''eks'']), (''env'', IMap [(''A'', IString ''1'')])]"

section \<open>Properties of the TLS configuration\<close>

declare decimal.simps [simp del]

lemma getContent_error:
  "getContent lib d key def = Return (Inl e) \<Longrightarrow> \<exists>msg. e = LibError msg"
  by (auto simp: getContent_def split: sum.splits prod.splits if_splits)

lemma getContent_pool_irrelevant:
  "getContent (lib\<lparr>NewCertPool := np, AppendCertsFromPEM := ap\<rparr>) d key def =
   getContent lib d key def"
  by (simp add: getContent_def split: sum.split)

lemma getContent_read:
  "Get d key = IString f \<Longrightarrow> pathorcontents_Read lib f = Inr (c, b) \<Longrightarrow>
   getContent lib d key def = Return (Inr (if c = def then [] else c))"
  by (simp add: getContent_def as_string_def)

lemma getTLSConfig_insecure_eq:
  assumes "Get d ''insecure'' = IBool True"
  shows "getTLSConfig lib d =
     (case getContent lib d ''client_key'' ''$HELM_HOME/key.pem'' of
        Panicked p \<Rightarrow> Panicked p
      | Return (Inl e) \<Rightarrow> Return (Inl e)
      | Return (Inr keyPEMBlock) \<Rightarrow>
     (case getContent lib d ''client_certificate'' ''$HELM_HOME/cert.pem'' of
        Panicked p \<Rightarrow> Panicked p
      | Return (Inl e) \<Rightarrow> Return (Inl e)
      | Return (Inr certPEMBlock) \<Rightarrow>
          if length keyPEMBlock = 0 \<and> length certPEMBlock = 0 then Return (Inr None)
          else
     (case X509KeyPair lib certPEMBlock keyPEMBlock of
        Inl e \<Rightarrow> Return (Inl (CouldNotReadX509KeyPair e))
      | Inr cert \<Rightarrow>
     (case getContent lib d ''ca_certificate'' ''$HELM_HOME/ca.pem'' of
        Panicked p \<Rightarrow> Panicked p
      | Return (Inl e) \<Rightarrow> Return (Inl e)
      | Return (Inr caPEMBlock) \<Rightarrow>
          Return (Inr (Some \<lparr>InsecureSkipVerify = True, Certificates = [cert], RootCAs = None\<rparr>))))))"
  unfolding getTLSConfig_def using assms
  by (simp add: as_bool_def split: outcome.split sum.split)

lemma getTLSConfig_insecure_pool_irrelevant:
  assumes "Get d ''insecure'' = IBool True"
  shows "getTLSConfig (lib\<lparr>NewCertPool := np, AppendCertsFromPEM := ap\<rparr>) d = getTLSConfig lib d"
  by (simp add: getTLSConfig_insecure_eq [OF assms] getContent_pool_irrelevant
        cong: outcome.case_cong sum.case_cong if_cong)

lemma getTLSConfig_insecure_RootCAs:
  assumes "Get d ''insecure'' = IBool True"
      and "getTLSConfig lib d = Return (Inr (Some cfg))"
  shows "RootCAs cfg = None \<and> InsecureSkipVerify cfg"
  using assms(2) unfolding getTLSConfig_insecure_eq [OF assms(1)]
  by (auto split: outcome.splits sum.splits if_splits)

lemma getTLSConfig_FailedToParse:
  assumes "getTLSConfig lib d = Return (Inl FailedToParseCaCertificate)"
  shows "Get d ''insecure'' = IBool False"
proof (cases "Get d ''insecure'' = IBool True")
  case True
  from assms show ?thesis unfolding getTLSConfig_insecure_eq [OF True]
    by (auto split: outcome.splits sum.splits if_splits dest: getContent_error)
next
  case False
  from assms have "\<exists>b. Get d ''insecure'' = IBool b"
    unfolding getTLSConfig_def
    by (auto simp: as_bool_def split: outcome.splits sum.splits if_splits iface.splits dest: getContent_error)
  with False show ?thesis by auto
qed


section \<open>Settings that conform to the schema never make a builder panic\<close>

lemma has_type_String: "has_type TypeString v \<Longrightarrow> \<exists>s. v = IString s"
  by (cases v) auto

lemma has_type_Bool: "has_type TypeBool v \<Longrightarrow> \<exists>b. v = IBool b"
  by (cases v) auto

lemma conforms_Get_String:
  "conforms d \<Longrightarrow> (key, TypeString) \<in> set provider_schema \<Longrightarrow> \<exists>s. Get d key = IString s"
  unfolding conforms_def list_all_iff by (auto dest: has_type_String)

lemma conforms_Get_Bool:
  "conforms d \<Longrightarrow> (key, TypeBool) \<in> set provider_schema \<Longrightarrow> \<exists>b. Get d key = IBool b"
  unfolding conforms_def list_all_iff by (auto dest: has_type_Bool)

lemma conforms_GetOk_String:
  "conforms d \<Longrightarrow> (key, TypeString) \<in> set provider_schema \<Longrightarrow> \<exists>s. fst (GetOk d key) = IString s"
  unfolding conforms_def list_all_iff by (auto dest: has_type_String)

lemma conforms_GetOk_Bool:
  "conforms d \<Longrightarrow> (key, TypeBool) \<in> set provider_schema \<Longrightarrow> \<exists>b. fst (GetOk d key) = IBool b"
  unfolding conforms_def list_all_iff by (auto dest: has_type_Bool)

lemma override_string_conforms:
  assumes "conforms d" "(key, TypeString) \<in> set provider_schema"
  shows "\<exists>cfg'. override_string d key upd cfg = Inr cfg'"
proof -
  from conforms_GetOk_String [OF assms] obtain s where "fst (GetOk d key) = IString s" ..
  then show ?thesis
    by (cases "GetOk d key") (auto simp: override_string_def as_string_def)
qed

lemma override_bool_conforms:
  assumes "conforms d" "(key, TypeBool) \<in> set provider_schema"
  shows "\<exists>cfg'. override_bool d key upd cfg = Inr cfg'"
proof -
  from conforms_GetOk_Bool [OF assms] obtain s where "fst (GetOk d key) = IBool s" ..
  then show ?thesis
    by (cases "GetOk d key") (auto simp: override_bool_def as_bool_def)
qed

lemma and_then_Inr: "r = Inr x \<Longrightarrow> and_then r f = f x"
  by (simp add: and_then_def)

lemma static_overrides_conforms:
  assumes "conforms d"
  shows "\<exists>cfg'. static_overrides d cfg = Inr cfg'"
proof -
  note s = override_string_conforms [OF assms] and b = override_bool_conforms [OF assms]
  obtain c1 where 1: "override_string d ''kubernetes.0.host'' (\<lambda>v c. c\<lparr>Host := v\<rparr>) cfg = Inr c1"
    using s [of "''kubernetes.0.host''"] by (auto simp: provider_schema_def)
  obtain c2 where 2: "override_string d ''kubernetes.0.username'' (\<lambda>v c. c\<lparr>Username := v\<rparr>) c1 = Inr c2"
    using s [of "''kubernetes.0.username''"] by (auto simp: provider_schema_def)
  obtain c3 where 3: "override_string d ''kubernetes.0.password'' (\<lambda>v c. c\<lparr>Password := v\<rparr>) c2 = Inr c3"
    using s [of "''kubernetes.0.password''"] by (auto simp: provider_schema_def)
  obtain c4 where 4: "override_bool d ''kubernetes.0.insecure'' (\<lambda>v c. c\<lparr>Insecure := v\<rparr>) c3 = Inr c4"
    using b [of "''kubernetes.0.insecure''"] by (auto simp: provider_schema_def)
  obtain c5 where 5: "override_string d ''kubernetes.0.cluster_ca_certificate'' (\<lambda>v c. c\<lparr>CAData := v\<rparr>) c4 = Inr c5"
    using s [of "''kubernetes.0.cluster_ca_certificate''"] by (auto simp: provider_schema_def)
  obtain c6 where 6: "override_string d ''kubernetes.0.client_certificate'' (\<lambda>v c. c\<lparr>CertData := v\<rparr>) c5 = Inr c6"
    using s [of "''kubernetes.0.client_certificate''"] by (auto simp: provider_schema_def)
  obtain c7 where 7: "override_string d ''kubernetes.0.client_key'' (\<lambda>v c. c\<lparr>KeyData := v\<rparr>) c6 = Inr c7"
    using s [of "''kubernetes.0.client_key''"] by (auto simp: provider_schema_def)
  show ?thesis
    unfolding static_overrides_def
    by (simp add: and_then_Inr [OF 1] and_then_Inr [OF 2] and_then_Inr [OF 3] and_then_Inr [OF 4]
          and_then_Inr [OF 5] and_then_Inr [OF 6] 7)
qed

lemma buildSettings_conforms:
  assumes "conforms d"
  shows "\<exists>s. buildSettings d m = Return (m\<lparr>Settings := Some s\<rparr>) \<and>
             Get d ''host'' = IString (TillerHost s)"
proof -
  obtain home where 1: "Get d ''home'' = IString home"
    using conforms_Get_String [OF assms, of "''home''"] by (auto simp: provider_schema_def)
  obtain host where 2: "Get d ''host'' = IString host"
    using conforms_Get_String [OF assms, of "''host''"] by (auto simp: provider_schema_def)
  obtain ns where 3: "Get d ''namespace'' = IString ns"
    using conforms_Get_String [OF assms, of "''namespace''"] by (auto simp: provider_schema_def)
  obtain dbg where 4: "Get d ''debug'' = IBool dbg"
    using conforms_Get_Bool [OF assms, of "''debug''"] by (auto simp: provider_schema_def)
  have "buildSettings d m =
          Return (m\<lparr>Settings := Some \<lparr>Home = home, TillerHost = host, TillerNamespace = ns,
                                         Debug = dbg\<rparr>\<rparr>)"
    by (simp add: buildSettings_def and_then_def as_string_def as_bool_def 1 2 3 4)
  with 2 show ?thesis
    by (intro exI [of _ "\<lparr>Home = home, TillerHost = host, TillerNamespace = ns, Debug = dbg\<rparr>"])
      simp
qed

lemma buildK8sClient_conforms:
  assumes "conforms d"
  shows "\<exists>e m' ev. buildK8sClient lib d m = (Return (e, m'), ev) \<and> Settings m' = Settings m"
proof -
  obtain ctx where 1: "Get d ''kubernetes.0.config_context'' = IString ctx"
    using conforms_Get_String [OF assms, of "''kubernetes.0.config_context''"]
    by (auto simp: provider_schema_def)
  show ?thesis
  proof (cases "kube_GetConfig_ClientConfig lib ctx")
    case (Pair cfg err)
    define cfg1 where "cfg1 = (case cfg of None \<Rightarrow> rest_Config_zero | Some c \<Rightarrow> c)
          \<lparr>UserAgent := ''HashiCorp/1.0 Terraform/'' @ terraform_VersionString lib\<rparr>"
    obtain cfg2 where 2: "static_overrides d cfg1 = Inr cfg2"
      using static_overrides_conforms [OF assms] by blast
    show ?thesis
      unfolding buildK8sClient_def using 2 [unfolded cfg1_def]
      by (cases err; cases "kubernetes_NewForConfig lib cfg2")
        (simp_all add: 1 as_string_def Pair Let_def)
  qed
qed

lemma buildTunnel_returns:
  assumes "Settings m = Some s"
  shows "\<exists>e m' ev. buildTunnel lib d m = (Return (e, m'), ev) \<and> Settings m' \<noteq> None"
  using assms by (auto simp: buildTunnel_def split: sum.splits)

lemma buildHelmClient_tls_error:
  assumes "Settings m = Some s" and "getTLSConfig lib d = Return (Inl e)"
  shows "buildHelmClient lib d m = (Return (Some e, m), [])"
  using assms by (simp add: buildHelmClient_def)

lemma buildMeta_tls_error:
  fixes lib :: "('cert, 'pool, 'kc, 'hc, 'z) provider_lib_scheme"
  assumes c: "conforms d" and tls: "getTLSConfig lib d = Return (Inl e)"
  shows "\<exists>e' ev. buildMeta lib d = (Return (Inl e'), ev)"
proof -
  let ?m0 = "Meta_zero :: ('kc, 'hc) Meta"
  obtain s where 1: "buildSettings d ?m0 = Return (?m0\<lparr>Settings := Some s\<rparr>)"
    using buildSettings_conforms [OF c, of ?m0] by blast
  let ?m1 = "?m0\<lparr>Settings := Some s\<rparr>"
  obtain e1 m2 ev1 where 2: "buildK8sClient lib d ?m1 = (Return (e1, m2), ev1)"
    and s2: "Settings m2 = Some s"
    using buildK8sClient_conforms [OF c, of lib ?m1] by auto
  show ?thesis
  proof (cases e1)
    case (Some err)
    then show ?thesis by (simp add: buildMeta_def 1 2)
  next
    case None
    from buildTunnel_returns [OF s2, of lib d]
    obtain e2 m3 ev2 where 3: "buildTunnel lib d m2 = (Return (e2, m3), ev2)"
      and s3: "Settings m3 \<noteq> None"
      by blast
    show ?thesis
    proof (cases e2)
      case (Some err)
      then show ?thesis by (simp add: buildMeta_def 1 2 None 3)
    next
      case n2: None
      from s3 obtain s' where "Settings m3 = Some s'" by auto
      from buildHelmClient_tls_error [OF this tls]
      show ?thesis by (simp add: buildMeta_def 1 2 None 3 n2)
    qed
  qed
qed


section \<open>The overrides that the resolver builds\<close>

lemma then_do_Next:
  "then_do f g = Next s \<longleftrightarrow> (\<exists>s'. f = Next s' \<and> g s' = Next s)"
  by (cases f) (simp_all add: then_do_def)

lemma override_with_Next:
  assumes "override_with lib k key assert upd s = Next s'"
  shows "loader s' = loader s \<and> logged s' = logged s \<and>
         (if snd (k8sGetOk lib (ConfigData k) key)
          then \<exists>x. assert (fst (k8sGetOk lib (ConfigData k) key)) = Inr x \<and>
                   overrides s' = upd x (overrides s)
          else overrides s' = overrides s)"
  using assms
  by (cases "k8sGetOk lib (ConfigData k) key")
     (auto simp: override_with_def split: if_splits sum.splits)

lemma host_override_Next:
  assumes "host_override lib k s = Next s'"
  shows "loader s' = loader s \<and> logged s' = logged s \<and>
         AuthInfo (overrides s') = AuthInfo (overrides s) \<and>
         Context (overrides s') = Context (overrides s) \<and>
         CurrentContext (overrides s') = CurrentContext (overrides s) \<and>
         InsecureSkipTLSVerify (ClusterInfo (overrides s')) =
           InsecureSkipTLSVerify (ClusterInfo (overrides s)) \<and>
         CertificateAuthorityData (ClusterInfo (overrides s')) =
           CertificateAuthorityData (ClusterInfo (overrides s)) \<and>
         (if snd (k8sGetOk lib (ConfigData k) ''host'')
          then \<exists>h url path.
                 fst (k8sGetOk lib (ConfigData k) ''host'') = IString h \<and>
                 rest_DefaultServerURL lib h [] GroupVersion_zero
                   (CertificateAuthorityData (ClusterInfo (overrides s)) \<noteq> [] \<or>
                    ClientCertificateData (AuthInfo (overrides s)) \<noteq> [] \<or>
                    InsecureSkipTLSVerify (ClusterInfo (overrides s))) = Inr (url, path) \<and>
                 Server (ClusterInfo (overrides s')) = url_String lib url
          else Server (ClusterInfo (overrides s')) = Server (ClusterInfo (overrides s)))"
  using assms
  by (cases "k8sGetOk lib (ConfigData k) ''host''")
     (auto simp: host_override_def Let_def as_string_def
        split: if_splits sum.splits iface.splits prod.splits)

lemma namespace_override_Next:
  assumes "namespace_override k s = Next s'"
  shows "loader s' = loader s \<and> logged s' = logged s \<and>
         AuthInfo (overrides s') = AuthInfo (overrides s) \<and>
         ClusterInfo (overrides s') = ClusterInfo (overrides s) \<and>
         CurrentContext (overrides s') = CurrentContext (overrides s) \<and>
         ctx_AuthInfo (Context (overrides s')) = ctx_AuthInfo (Context (overrides s)) \<and>
         ctx_Cluster (Context (overrides s')) = ctx_Cluster (Context (overrides s)) \<and>
         ctx_Namespace (Context (overrides s')) =
           (case Namespace k of None \<Rightarrow> ''default'' | Some n \<Rightarrow> n)"
  using assms
  by (auto simp: namespace_override_def Let_def split: option.splits)

lemma exec_override_Next:
  assumes "exec_override lib k s = Next s'"
  shows "loader s' = loader s \<and> logged s' = logged s \<and>
         ClusterInfo (overrides s') = ClusterInfo (overrides s) \<and>
         Context (overrides s') = Context (overrides s) \<and>
         CurrentContext (overrides s') = CurrentContext (overrides s) \<and>
         ClientCertificateData (AuthInfo (overrides s')) =
           ClientCertificateData (AuthInfo (overrides s)) \<and>
         ClientKeyData (AuthInfo (overrides s')) = ClientKeyData (AuthInfo (overrides s)) \<and>
         Token (AuthInfo (overrides s')) = Token (AuthInfo (overrides s)) \<and>
         auth_Username (AuthInfo (overrides s')) = auth_Username (AuthInfo (overrides s)) \<and>
         auth_Password (AuthInfo (overrides s')) = auth_Password (AuthInfo (overrides s)) \<and>
         (if snd (k8sGetOk lib (ConfigData k) ''exec'')
          then \<exists>spec rest exec.
                 fst (k8sGetOk lib (ConfigData k) ''exec'') = IList (IMap spec # rest) \<and>
                 exec_config lib spec = Return exec \<and>
                 Exec (AuthInfo (overrides s')) = Some exec
          else Exec (AuthInfo (overrides s')) = Exec (AuthInfo (overrides s)))"
  using assms
  by (cases "k8sGetOk lib (ConfigData k) ''exec''")
     (auto simp: exec_override_def as_list_def
        split: if_splits sum.splits iface.splits list.splits outcome.splits)

lemma context_overrides_Next:
  assumes "context_overrides lib k s = Next s'"
      and "Context (overrides s) = api_Context_zero" "CurrentContext (overrides s) = []"
  shows "loader s' = loader s \<and>
         AuthInfo (overrides s') = AuthInfo (overrides s) \<and>
         ClusterInfo (overrides s') = ClusterInfo (overrides s) \<and>
         ctx_Namespace (Context (overrides s')) = [] \<and>
         copied_or_unset (k8sGetOk lib (ConfigData k) ''config_context'') (IString [])
           (IString (CurrentContext (overrides s'))) \<and>
         copied_or_unset (k8sGetOk lib (ConfigData k) ''config_context_auth_info'') (IString [])
           (IString (ctx_AuthInfo (Context (overrides s')))) \<and>
         copied_or_unset (k8sGetOk lib (ConfigData k) ''config_context_cluster'') (IString [])
           (IString (ctx_Cluster (Context (overrides s'))))"
proof -
  obtain ctx ctxOk where 1: "k8sGetOk lib (ConfigData k) ''config_context'' = (ctx, ctxOk)"
    by (cases "k8sGetOk lib (ConfigData k) ''config_context''")
  obtain authInfo authInfoOk where
    2: "k8sGetOk lib (ConfigData k) ''config_context_auth_info'' = (authInfo, authInfoOk)"
    by (cases "k8sGetOk lib (ConfigData k) ''config_context_auth_info''")
  obtain cluster clusterOk where
    3: "k8sGetOk lib (ConfigData k) ''config_context_cluster'' = (cluster, clusterOk)"
    by (cases "k8sGetOk lib (ConfigData k) ''config_context_cluster''")
  show ?thesis
    using assms
    by (cases ctxOk; cases authInfoOk; cases clusterOk)
       (auto simp: context_overrides_def 1 2 3 then_do_def as_string_def copied_or_unset_def
          api_Context_zero_def split: iface.splits)
qed

lemma load_config_file_Next:
  assumes "load_config_file lib k s = Next s'"
      and "Context (overrides s) = api_Context_zero" "CurrentContext (overrides s) = []"
  shows "AuthInfo (overrides s') = AuthInfo (overrides s) \<and>
         ClusterInfo (overrides s') = ClusterInfo (overrides s) \<and>
         ctx_Namespace (Context (overrides s')) = [] \<and>
         (if loads_config_file lib k
          then (\<exists>configPath path.
                  fst (k8sGetOk lib (ConfigData k) ''config_path'') = IString configPath \<and>
                  homedir_Expand lib configPath = Inr path \<and>
                  ExplicitPath (loader s') = path) \<and>
               copied_or_unset (k8sGetOk lib (ConfigData k) ''config_context'') (IString [])
                 (IString (CurrentContext (overrides s'))) \<and>
               copied_or_unset (k8sGetOk lib (ConfigData k) ''config_context_auth_info'')
                 (IString []) (IString (ctx_AuthInfo (Context (overrides s')))) \<and>
               copied_or_unset (k8sGetOk lib (ConfigData k) ''config_context_cluster'')
                 (IString []) (IString (ctx_Cluster (Context (overrides s'))))
          else s' = s)"
proof (cases "loads_config_file lib k")
  case False
  with assms(1) have "s' = s"
    by (cases "k8sGetOk lib (ConfigData k) ''config_path''")
       (auto simp: load_config_file_def loads_config_file_def as_bool_def as_string_def
          split: iface.splits if_splits sum.splits)
  with False assms(2,3) show ?thesis by (simp add: api_Context_zero_def)
next
  case True
  then obtain configPath where
    l: "k8sGet lib (ConfigData k) ''load_config_file'' = IBool True" and
    p: "k8sGetOk lib (ConfigData k) ''config_path'' = (configPath, True)" and
    n: "configPath \<noteq> IString []"
    by (cases "k8sGetOk lib (ConfigData k) ''config_path''") (auto simp: loads_config_file_def)
  from assms(1) n obtain cp path where
    cp: "configPath = IString cp" and e: "homedir_Expand lib cp = Inr path" and
    c: "context_overrides lib k (s\<lparr>loader := (loader s)\<lparr>ExplicitPath := path\<rparr>\<rparr>) = Next s'"
    by (auto simp: load_config_file_def l p as_bool_def as_string_def
          split: iface.splits sum.splits if_splits)
  from context_overrides_Next [OF c] assms(2,3) True cp e p show ?thesis
    by auto
qed

lemma override_insecure_Next:
  assumes "override_with lib k ''insecure'' as_bool
             (\<lambda>v ov. ov\<lparr>ClusterInfo := (ClusterInfo ov)\<lparr>InsecureSkipTLSVerify := v\<rparr>\<rparr>) s = Next s'"
  shows "loader s' = loader s \<and>
         logged s' = logged s \<and>
         AuthInfo (overrides s') = AuthInfo (overrides s) \<and>
         Context (overrides s') = Context (overrides s) \<and>
         CurrentContext (overrides s') = CurrentContext (overrides s) \<and>
         Server (ClusterInfo (overrides s')) = Server (ClusterInfo (overrides s)) \<and>
         CertificateAuthorityData (ClusterInfo (overrides s')) = CertificateAuthorityData (ClusterInfo (overrides s)) \<and>
         (if snd (k8sGetOk lib (ConfigData k) ''insecure'')
          then IBool (InsecureSkipTLSVerify (ClusterInfo (overrides s'))) = fst (k8sGetOk lib (ConfigData k) ''insecure'')
          else InsecureSkipTLSVerify (ClusterInfo (overrides s')) = InsecureSkipTLSVerify (ClusterInfo (overrides s)))"
  using override_with_Next [OF assms]
  by (auto simp: as_bool_def split: if_splits iface.splits)

lemma override_cluster_ca_certificate_Next:
  assumes "override_with lib k ''cluster_ca_certificate'' as_string
             (\<lambda>v ov. ov\<lparr>ClusterInfo := (ClusterInfo ov)\<lparr>CertificateAuthorityData := v\<rparr>\<rparr>) s = Next s'"
  shows "loader s' = loader s \<and>
         logged s' = logged s \<and>
         AuthInfo (overrides s') = AuthInfo (overrides s) \<and>
         Context (overrides s') = Context (overrides s) \<and>
         CurrentContext (overrides s') = CurrentContext (overrides s) \<and>
         Server (ClusterInfo (overrides s')) = Server (ClusterInfo (overrides s)) \<and>
         InsecureSkipTLSVerify (ClusterInfo (overrides s')) = InsecureSkipTLSVerify (ClusterInfo (overrides s)) \<and>
         (if snd (k8sGetOk lib (ConfigData k) ''cluster_ca_certificate'')
          then IString (CertificateAuthorityData (ClusterInfo (overrides s'))) = fst (k8sGetOk lib (ConfigData k) ''cluster_ca_certificate'')
          else CertificateAuthorityData (ClusterInfo (overrides s')) = CertificateAuthorityData (ClusterInfo (overrides s)))"
  using override_with_Next [OF assms]
  by (auto simp: as_string_def split: if_splits iface.splits)

lemma override_client_certificate_Next:
  assumes "override_with lib k ''client_certificate'' as_string
             (\<lambda>v ov. ov\<lparr>AuthInfo := (AuthInfo ov)\<lparr>ClientCertificateData := v\<rparr>\<rparr>) s = Next s'"
  shows "loader s' = loader s \<and>
         logged s' = logged s \<and>
         ClusterInfo (overrides s') = ClusterInfo (overrides s) \<and>
         Context (overrides s') = Context (overrides s) \<and>
         CurrentContext (overrides s') = CurrentContext (overrides s) \<and>
         ClientKeyData (AuthInfo (overrides s')) = ClientKeyData (AuthInfo (overrides s)) \<and>
         Token (AuthInfo (overrides s')) = Token (AuthInfo (overrides s)) \<and>
         auth_Username (AuthInfo (overrides s')) = auth_Username (AuthInfo (overrides s)) \<and>
         auth_Password (AuthInfo (overrides s')) = auth_Password (AuthInfo (overrides s)) \<and>
         Exec (AuthInfo (overrides s')) = Exec (AuthInfo (overrides s)) \<and>
         (if snd (k8sGetOk lib (ConfigData k) ''client_certificate'')
          then IString (ClientCertificateData (AuthInfo (overrides s'))) = fst (k8sGetOk lib (ConfigData k) ''client_certificate'')
          else ClientCertificateData (AuthInfo (overrides s')) = ClientCertificateData (AuthInfo (overrides s)))"
  using override_with_Next [OF assms]
  by (auto simp: as_string_def split: if_splits iface.splits)

lemma override_username_Next:
  assumes "override_with lib k ''username'' as_string
             (\<lambda>v ov. ov\<lparr>AuthInfo := (AuthInfo ov)\<lparr>auth_Username := v\<rparr>\<rparr>) s = Next s'"
  shows "loader s' = loader s \<and>
         logged s' = logged s \<and>
         ClusterInfo (overrides s') = ClusterInfo (overrides s) \<and>
         Context (overrides s') = Context (overrides s) \<and>
         CurrentContext (overrides s') = CurrentContext (overrides s) \<and>
         ClientCertificateData (AuthInfo (overrides s')) = ClientCertificateData (AuthInfo (overrides s)) \<and>
         ClientKeyData (AuthInfo (overrides s')) = ClientKeyData (AuthInfo (overrides s)) \<and>
         Token (AuthInfo (overrides s')) = Token (AuthInfo (overrides s)) \<and>
         auth_Password (AuthInfo (overrides s')) = auth_Password (AuthInfo (overrides s)) \<and>
         Exec (AuthInfo (overrides s')) = Exec (AuthInfo (overrides s)) \<and>
         (if snd (k8sGetOk lib (ConfigData k) ''username'')
          then IString (auth_Username (AuthInfo (overrides s'))) = fst (k8sGetOk lib (ConfigData k) ''username'')
          else auth_Username (AuthInfo (overrides s')) = auth_Username (AuthInfo (overrides s)))"
  using override_with_Next [OF assms]
  by (auto simp: as_string_def split: if_splits iface.splits)

lemma override_password_Next:
  assumes "override_with lib k ''password'' as_string
             (\<lambda>v ov. ov\<lparr>AuthInfo := (AuthInfo ov)\<lparr>auth_Password := v\<rparr>\<rparr>) s = Next s'"
  shows "loader s' = loader s \<and>
         logged s' = logged s \<and>
         ClusterInfo (overrides s') = ClusterInfo (overrides s) \<and>
         Context (overrides s') = Context (overrides s) \<and>
         CurrentContext (overrides s') = CurrentContext (overrides s) \<and>
         ClientCertificateData (AuthInfo (overrides s')) = ClientCertificateData (AuthInfo (overrides s)) \<and>
         ClientKeyData (AuthInfo (overrides s')) = ClientKeyData (AuthInfo (overrides s)) \<and>
         Token (AuthInfo (overrides s')) = Token (AuthInfo (overrides s)) \<and>
         auth_Username (AuthInfo (overrides s')) = auth_Username (AuthInfo (overrides s)) \<and>
         Exec (AuthInfo (overrides s')) = Exec (AuthInfo (overrides s)) \<and>
         (if snd (k8sGetOk lib (ConfigData k) ''password'')
          then IString (auth_Password (AuthInfo (overrides s'))) = fst (k8sGetOk lib (ConfigData k) ''password'')
          else auth_Password (AuthInfo (overrides s')) = auth_Password (AuthInfo (overrides s)))"
  using override_with_Next [OF assms]
  by (auto simp: as_string_def split: if_splits iface.splits)

lemma override_client_key_Next:
  assumes "override_with lib k ''client_key'' as_string
             (\<lambda>v ov. ov\<lparr>AuthInfo := (AuthInfo ov)\<lparr>ClientKeyData := v\<rparr>\<rparr>) s = Next s'"
  shows "loader s' = loader s \<and>
         logged s' = logged s \<and>
         ClusterInfo (overrides s') = ClusterInfo (overrides s) \<and>
         Context (overrides s') = Context (overrides s) \<and>
         CurrentContext (overrides s') = CurrentContext (overrides s) \<and>
         ClientCertificateData (AuthInfo (overrides s')) = ClientCertificateData (AuthInfo (overrides s)) \<and>
         Token (AuthInfo (overrides s')) = Token (AuthInfo (overrides s)) \<and>
         auth_Username (AuthInfo (overrides s')) = auth_Username (AuthInfo (overrides s)) \<and>
         auth_Password (AuthInfo (overrides s')) = auth_Password (AuthInfo (overrides s)) \<and>
         Exec (AuthInfo (overrides s')) = Exec (AuthInfo (overrides s)) \<and>
         (if snd (k8sGetOk lib (ConfigData k) ''client_key'')
          then IString (ClientKeyData (AuthInfo (overrides s'))) = fst (k8sGetOk lib (ConfigData k) ''client_key'')
          else ClientKeyData (AuthInfo (overrides s')) = ClientKeyData (AuthInfo (overrides s)))"
  using override_with_Next [OF assms]
  by (auto simp: as_string_def split: if_splits iface.splits)

lemma override_token_Next:
  assumes "override_with lib k ''token'' as_string
             (\<lambda>v ov. ov\<lparr>AuthInfo := (AuthInfo ov)\<lparr>Token := v\<rparr>\<rparr>) s = Next s'"
  shows "loader s' = loader s \<and>
         logged s' = logged s \<and>
         ClusterInfo (overrides s') = ClusterInfo (overrides s) \<and>
         Context (overrides s') = Context (overrides s) \<and>
         CurrentContext (overrides s') = CurrentContext (overrides s) \<and>
         ClientCertificateData (AuthInfo (overrides s')) = ClientCertificateData (AuthInfo (overrides s)) \<and>
         ClientKeyData (AuthInfo (overrides s')) = ClientKeyData (AuthInfo (overrides s)) \<and>
         auth_Username (AuthInfo (overrides s')) = auth_Username (AuthInfo (overrides s)) \<and>
         auth_Password (AuthInfo (overrides s')) = auth_Password (AuthInfo (overrides s)) \<and>
         Exec (AuthInfo (overrides s')) = Exec (AuthInfo (overrides s)) \<and>
         (if snd (k8sGetOk lib (ConfigData k) ''token'')
          then IString (Token (AuthInfo (overrides s'))) = fst (k8sGetOk lib (ConfigData k) ''token'')
          else Token (AuthInfo (overrides s')) = Token (AuthInfo (overrides s)))"
  using override_with_Next [OF assms]
  by (auto simp: as_string_def split: if_splits iface.splits)

lemma build_overrides_fields:
  assumes "build_overrides lib k = Next s"
  shows "copied_or_unset (k8sGetOk lib (ConfigData k) ''insecure'') (IBool False)
           (IBool (InsecureSkipTLSVerify (ClusterInfo (overrides s))))"
    and "copied_or_unset (k8sGetOk lib (ConfigData k) ''cluster_ca_certificate'') (IString [])
           (IString (CertificateAuthorityData (ClusterInfo (overrides s))))"
    and "copied_or_unset (k8sGetOk lib (ConfigData k) ''client_certificate'') (IString [])
           (IString (ClientCertificateData (AuthInfo (overrides s))))"
    and "copied_or_unset (k8sGetOk lib (ConfigData k) ''username'') (IString [])
           (IString (auth_Username (AuthInfo (overrides s))))"
    and "copied_or_unset (k8sGetOk lib (ConfigData k) ''password'') (IString [])
           (IString (auth_Password (AuthInfo (overrides s))))"
    and "copied_or_unset (k8sGetOk lib (ConfigData k) ''client_key'') (IString [])
           (IString (ClientKeyData (AuthInfo (overrides s))))"
    and "copied_or_unset (k8sGetOk lib (ConfigData k) ''token'') (IString [])
           (IString (Token (AuthInfo (overrides s))))"
    and "if snd (k8sGetOk lib (ConfigData k) ''exec'')
         then \<exists>spec rest exec.
                fst (k8sGetOk lib (ConfigData k) ''exec'') = IList (IMap spec # rest) \<and>
                exec_config lib spec = Return exec \<and>
                Exec (AuthInfo (overrides s)) = Some exec
         else Exec (AuthInfo (overrides s)) = None"
    and "if snd (k8sGetOk lib (ConfigData k) ''host'')
         then \<exists>h url path.
                fst (k8sGetOk lib (ConfigData k) ''host'') = IString h \<and>
                rest_DefaultServerURL lib h [] GroupVersion_zero
                  (CertificateAuthorityData (ClusterInfo (overrides s)) \<noteq> [] \<or>
                   ClientCertificateData (AuthInfo (overrides s)) \<noteq> [] \<or>
                   InsecureSkipTLSVerify (ClusterInfo (overrides s))) = Inr (url, path) \<and>
                Server (ClusterInfo (overrides s)) = url_String lib url
         else Server (ClusterInfo (overrides s)) = []"
    and "if loads_config_file lib k
         then copied_or_unset (k8sGetOk lib (ConfigData k) ''config_context'') (IString [])
                (IString (CurrentContext (overrides s))) \<and>
              copied_or_unset (k8sGetOk lib (ConfigData k) ''config_context_auth_info'')
                (IString []) (IString (ctx_AuthInfo (Context (overrides s)))) \<and>
              copied_or_unset (k8sGetOk lib (ConfigData k) ''config_context_cluster'')
                (IString []) (IString (ctx_Cluster (Context (overrides s))))
         else CurrentContext (overrides s) = [] \<and>
              ctx_AuthInfo (Context (overrides s)) = [] \<and>
              ctx_Cluster (Context (overrides s)) = []"
    and "ctx_Namespace (Context (overrides s)) =
           (case Namespace k of None \<Rightarrow> ''default'' | Some namespace \<Rightarrow> namespace)"
proof -
  let ?s0 = "\<lparr>overrides = ConfigOverrides_zero, loader = ClientConfigLoadingRules_zero,
              logged = []\<rparr>"
  from assms obtain s1 s2 s3 s4 s5 s6 s7 s8 s9 s10 where
    st0: "load_config_file lib k ?s0 = Next s1" and
    st1: "override_with lib k ''insecure'' as_bool
            (\<lambda>v ov. ov\<lparr>ClusterInfo := (ClusterInfo ov)\<lparr>InsecureSkipTLSVerify := v\<rparr>\<rparr>) s1 = Next s2" and
    st2: "override_with lib k ''cluster_ca_certificate'' as_string
            (\<lambda>v ov. ov\<lparr>ClusterInfo := (ClusterInfo ov)\<lparr>CertificateAuthorityData := v\<rparr>\<rparr>) s2 =
          Next s3" and
    st3: "override_with lib k ''client_certificate'' as_string
            (\<lambda>v ov. ov\<lparr>AuthInfo := (AuthInfo ov)\<lparr>ClientCertificateData := v\<rparr>\<rparr>) s3 = Next s4" and
    st4: "host_override lib k s4 = Next s5" and
    st5: "override_with lib k ''username'' as_string
            (\<lambda>v ov. ov\<lparr>AuthInfo := (AuthInfo ov)\<lparr>auth_Username := v\<rparr>\<rparr>) s5 = Next s6" and
    st6: "override_with lib k ''password'' as_string
            (\<lambda>v ov. ov\<lparr>AuthInfo := (AuthInfo ov)\<lparr>auth_Password := v\<rparr>\<rparr>) s6 = Next s7" and
    st7: "override_with lib k ''client_key'' as_string
            (\<lambda>v ov. ov\<lparr>AuthInfo := (AuthInfo ov)\<lparr>ClientKeyData := v\<rparr>\<rparr>) s7 = Next s8" and
    st8: "override_with lib k ''token'' as_string
            (\<lambda>v ov. ov\<lparr>AuthInfo := (AuthInfo ov)\<lparr>Token := v\<rparr>\<rparr>) s8 = Next s9" and
    st9: "exec_override lib k s9 = Next s10" and
    st10: "namespace_override k s10 = Next s"
    unfolding build_overrides_def overrides_before_exec_def then_do_Next by blast
  have z: "Context (overrides ?s0) = api_Context_zero" "CurrentContext (overrides ?s0) = []"
    by (simp_all add: ConfigOverrides_zero_def)
  note f0 = load_config_file_Next [OF st0 z]
  note f1 = override_insecure_Next [OF st1]
  note f2 = override_cluster_ca_certificate_Next [OF st2]
  note f3 = override_client_certificate_Next [OF st3]
  note f4 = host_override_Next [OF st4]
  note f5 = override_username_Next [OF st5]
  note f6 = override_password_Next [OF st6]
  note f7 = override_client_key_Next [OF st7]
  note f8 = override_token_Next [OF st8]
  note f9 = exec_override_Next [OF st9]
  note f10 = namespace_override_Next [OF st10]
  have a0: "AuthInfo (overrides s1) = AuthInfo ConfigOverrides_zero"
    and c0: "ClusterInfo (overrides s1) = ClusterInfo ConfigOverrides_zero"
    using f0 by simp_all
  show "copied_or_unset (k8sGetOk lib (ConfigData k) ''insecure'') (IBool False)
           (IBool (InsecureSkipTLSVerify (ClusterInfo (overrides s))))"
    using f1 f2 f3 f4 f5 f6 f7 f8 f9 f10 c0
    by (simp add: copied_or_unset_def ConfigOverrides_zero_def)
  show "copied_or_unset (k8sGetOk lib (ConfigData k) ''cluster_ca_certificate'') (IString [])
           (IString (CertificateAuthorityData (ClusterInfo (overrides s))))"
    using f1 f2 f3 f4 f5 f6 f7 f8 f9 f10 c0
    by (simp add: copied_or_unset_def ConfigOverrides_zero_def)
  show "copied_or_unset (k8sGetOk lib (ConfigData k) ''client_certificate'') (IString [])
           (IString (ClientCertificateData (AuthInfo (overrides s))))"
    using f1 f2 f3 f4 f5 f6 f7 f8 f9 f10 a0
    by (simp add: copied_or_unset_def ConfigOverrides_zero_def)
  show "copied_or_unset (k8sGetOk lib (ConfigData k) ''username'') (IString [])
           (IString (auth_Username (AuthInfo (overrides s))))"
    using f1 f2 f3 f4 f5 f6 f7 f8 f9 f10 a0
    by (simp add: copied_or_unset_def ConfigOverrides_zero_def)
  show "copied_or_unset (k8sGetOk lib (ConfigData k) ''password'') (IString [])
           (IString (auth_Password (AuthInfo (overrides s))))"
    using f1 f2 f3 f4 f5 f6 f7 f8 f9 f10 a0
    by (simp add: copied_or_unset_def ConfigOverrides_zero_def)
  show "copied_or_unset (k8sGetOk lib (ConfigData k) ''client_key'') (IString [])
           (IString (ClientKeyData (AuthInfo (overrides s))))"
    using f1 f2 f3 f4 f5 f6 f7 f8 f9 f10 a0
    by (simp add: copied_or_unset_def ConfigOverrides_zero_def)
  show "copied_or_unset (k8sGetOk lib (ConfigData k) ''token'') (IString [])
           (IString (Token (AuthInfo (overrides s))))"
    using f1 f2 f3 f4 f5 f6 f7 f8 f9 f10 a0
    by (simp add: copied_or_unset_def ConfigOverrides_zero_def)
  show "if snd (k8sGetOk lib (ConfigData k) ''exec'')
         then \<exists>spec rest exec.
                fst (k8sGetOk lib (ConfigData k) ''exec'') = IList (IMap spec # rest) \<and>
                exec_config lib spec = Return exec \<and>
                Exec (AuthInfo (overrides s)) = Some exec
         else Exec (AuthInfo (overrides s)) = None"
  proof -
    have "Exec (AuthInfo (overrides s9)) = None"
      using f1 f2 f3 f4 f5 f6 f7 f8 a0 by (simp add: ConfigOverrides_zero_def)
    moreover have "AuthInfo (overrides s) = AuthInfo (overrides s10)"
      using f10 by simp
    ultimately show ?thesis
      using f9 by (auto split: if_splits)
  qed
  show "if snd (k8sGetOk lib (ConfigData k) ''host'')
         then \<exists>h url path.
                fst (k8sGetOk lib (ConfigData k) ''host'') = IString h \<and>
                rest_DefaultServerURL lib h [] GroupVersion_zero
                  (CertificateAuthorityData (ClusterInfo (overrides s)) \<noteq> [] \<or>
                   ClientCertificateData (AuthInfo (overrides s)) \<noteq> [] \<or>
                   InsecureSkipTLSVerify (ClusterInfo (overrides s))) = Inr (url, path) \<and>
                Server (ClusterInfo (overrides s)) = url_String lib url
         else Server (ClusterInfo (overrides s)) = []"
  proof -
    have "Server (ClusterInfo (overrides s4)) = []"
      using f1 f2 f3 c0 by (simp add: ConfigOverrides_zero_def)
    moreover have "ClusterInfo (overrides s) = ClusterInfo (overrides s5)"
      using f5 f6 f7 f8 f9 f10 by simp
    moreover have "ClientCertificateData (AuthInfo (overrides s)) =
                     ClientCertificateData (AuthInfo (overrides s4))"
      using f4 f5 f6 f7 f8 f9 f10 by simp
    moreover have "InsecureSkipTLSVerify (ClusterInfo (overrides s5)) =
                     InsecureSkipTLSVerify (ClusterInfo (overrides s4))"
      and "CertificateAuthorityData (ClusterInfo (overrides s5)) =
             CertificateAuthorityData (ClusterInfo (overrides s4))"
      using f4 by simp_all
    ultimately show ?thesis
      using f4 by (auto split: if_splits)
  qed
  show "if loads_config_file lib k
         then copied_or_unset (k8sGetOk lib (ConfigData k) ''config_context'') (IString [])
                (IString (CurrentContext (overrides s))) \<and>
              copied_or_unset (k8sGetOk lib (ConfigData k) ''config_context_auth_info'')
                (IString []) (IString (ctx_AuthInfo (Context (overrides s)))) \<and>
              copied_or_unset (k8sGetOk lib (ConfigData k) ''config_context_cluster'')
                (IString []) (IString (ctx_Cluster (Context (overrides s))))
         else CurrentContext (overrides s) = [] \<and>
              ctx_AuthInfo (Context (overrides s)) = [] \<and>
              ctx_Cluster (Context (overrides s)) = []"
  proof -
    have "CurrentContext (overrides s) = CurrentContext (overrides s1)"
      and "ctx_AuthInfo (Context (overrides s)) = ctx_AuthInfo (Context (overrides s1))"
      and "ctx_Cluster (Context (overrides s)) = ctx_Cluster (Context (overrides s1))"
      using f1 f2 f3 f4 f5 f6 f7 f8 f9 f10 by simp_all
    then show ?thesis
      using f0 by (auto simp: ConfigOverrides_zero_def api_Context_zero_def split: if_splits)
  qed
  show "ctx_Namespace (Context (overrides s)) =
           (case Namespace k of None \<Rightarrow> ''default'' | Some namespace \<Rightarrow> namespace)"
    using f10 by simp
qed


section \<open>Claims about the Helm client's TLS configuration\<close>

text \<open>
  Claim C7. With a client certificate and key that form a valid pair (not both empty
  once the default sentinels are dropped), CA material that reads as empty or as its
  default sentinel \<open>$HELM_HOME/ca.pem\<close>, and the insecure flag unset,
  \<open>getTLSConfig\<close> returns a configuration whose certificate list is exactly the parsed
  pair and whose root CA pool is not set.
\<close>

theorem getTLSConfig_certificate_and_key_only:
  assumes "getContent lib d ''client_key'' ''$HELM_HOME/key.pem'' = Return (Inr keyPEMBlock)"
      and "getContent lib d ''client_certificate'' ''$HELM_HOME/cert.pem'' =
             Return (Inr certPEMBlock)"
      and "keyPEMBlock \<noteq> [] \<or> certPEMBlock \<noteq> []"
      and "X509KeyPair lib certPEMBlock keyPEMBlock = Inr cert"
      and "Get d ''insecure'' = IBool False"
      and "Get d ''ca_certificate'' = IString filename"
      and "pathorcontents_Read lib filename = Inr (content, wasPath)"
      and "content = [] \<or> content = ''$HELM_HOME/ca.pem''"
  shows "getTLSConfig lib d =
           Return (Inr (Some \<lparr>InsecureSkipVerify = False, Certificates = [cert],
                               RootCAs = None\<rparr>))"
proof -
  have "getContent lib d ''ca_certificate'' ''$HELM_HOME/ca.pem'' = Return (Inr [])"
    using getContent_read [OF assms(6,7)] assms(8) by auto
  with assms(1-5) show ?thesis
    by (auto simp: getTLSConfig_def as_bool_def)
qed

theorem getTLSConfig_certificate_and_key_only_witness:
  "getContent demo_lib (ResourceData_of demo_data) ''client_key'' ''$HELM_HOME/key.pem'' =
     Return (Inr ''KEY'')
   \<and> getContent demo_lib (ResourceData_of demo_data) ''client_certificate''
         ''$HELM_HOME/cert.pem'' = Return (Inr ''CERT'')
   \<and> X509KeyPair demo_lib ''CERT'' ''KEY'' = Inr (''CERT'', ''KEY'')
   \<and> Get (ResourceData_of demo_data) ''insecure'' = IBool False
   \<and> Get (ResourceData_of demo_data) ''ca_certificate'' = IString ''$HELM_HOME/ca.pem''
   \<and> pathorcontents_Read demo_lib ''$HELM_HOME/ca.pem'' = Inr (''$HELM_HOME/ca.pem'', False)
   \<and> getTLSConfig demo_lib (ResourceData_of demo_data) =
       Return (Inr (Some \<lparr>InsecureSkipVerify = False, Certificates = [(''CERT'', ''KEY'')],
                           RootCAs = None\<rparr>))"
proof -
  have 1: "getContent demo_lib (ResourceData_of demo_data) ''client_key''
             ''$HELM_HOME/key.pem'' = Return (Inr ''KEY'')"
    by (simp add: getContent_def demo_lib_def ResourceData_of_def demo_data_def as_string_def)
  have 2: "getContent demo_lib (ResourceData_of demo_data) ''client_certificate''
             ''$HELM_HOME/cert.pem'' = Return (Inr ''CERT'')"
    by (simp add: getContent_def demo_lib_def ResourceData_of_def demo_data_def as_string_def)
  have 3: "''KEY'' \<noteq> [] \<or> ''CERT'' \<noteq> []" by simp
  have 4: "X509KeyPair demo_lib ''CERT'' ''KEY'' = Inr (''CERT'', ''KEY'')"
    by (simp add: demo_lib_def)
  have 5: "Get (ResourceData_of demo_data) ''insecure'' = IBool False"
    by (simp add: ResourceData_of_def demo_data_def)
  have 6: "Get (ResourceData_of demo_data) ''ca_certificate'' = IString ''$HELM_HOME/ca.pem''"
    by (simp add: ResourceData_of_def demo_data_def)
  have 7: "pathorcontents_Read demo_lib ''$HELM_HOME/ca.pem'' =
             Inr (''$HELM_HOME/ca.pem'', False)"
    by (simp add: demo_lib_def)
  have 8: "''$HELM_HOME/ca.pem'' = [] \<or> ''$HELM_HOME/ca.pem'' = ''$HELM_HOME/ca.pem''"
    by simp
  from getTLSConfig_certificate_and_key_only [OF 1 2 3 4 5 6 7 8] 1 2 4 5 6 7
  show ?thesis by blast
qed

text \<open>
  Claim C10. With the insecure flag set, a configuration that \<open>getTLSConfig\<close> returns
  has no root CA pool, and the result does not depend on \<open>x509.NewCertPool\<close> or
  \<open>AppendCertsFromPEM\<close>: the CA bundle is never parsed, whatever it holds. The error
  \<open>failed to parse ca_certificate\<close> is returned only when the insecure flag is unset.
\<close>

theorem getTLSConfig_insecure_never_parses_ca:
  "(Get d ''insecure'' = IBool True \<longrightarrow>
      (\<forall>cfg. getTLSConfig lib d = Return (Inr (Some cfg)) \<longrightarrow> RootCAs cfg = None) \<and>
      (\<forall>newPool append.
         getTLSConfig (lib\<lparr>NewCertPool := newPool, AppendCertsFromPEM := append\<rparr>) d =
         getTLSConfig lib d)) \<and>
   (getTLSConfig lib d = Return (Inl FailedToParseCaCertificate) \<longrightarrow>
      Get d ''insecure'' = IBool False)"
  using getTLSConfig_insecure_RootCAs [where d = d and lib = lib]
    getTLSConfig_insecure_pool_irrelevant [where d = d and lib = lib]
    getTLSConfig_FailedToParse [where d = d and lib = lib]
  by blast

theorem getTLSConfig_insecure_never_parses_ca_witness:
  "Get (ResourceData_of ((''insecure'', IBool True) # (''ca_certificate'', IString ''garbage'')
          # demo_data)) ''insecure'' = IBool True
   \<and> getContent demo_lib
         (ResourceData_of ((''insecure'', IBool True) # (''ca_certificate'', IString ''garbage'')
            # demo_data)) ''ca_certificate'' ''$HELM_HOME/ca.pem'' = Return (Inr ''garbage'')
   \<and> \<not> snd (AppendCertsFromPEM demo_lib (NewCertPool demo_lib) ''garbage'')
   \<and> getTLSConfig demo_lib
         (ResourceData_of ((''insecure'', IBool True) # (''ca_certificate'', IString ''garbage'')
            # demo_data)) =
       Return (Inr (Some \<lparr>InsecureSkipVerify = True, Certificates = [(''CERT'', ''KEY'')],
                           RootCAs = None\<rparr>))
   \<and> getTLSConfig (demo_lib\<lparr>NewCertPool := [''root''],
                               AppendCertsFromPEM := (\<lambda>pool pem. (pem # pool, True))\<rparr>)
         (ResourceData_of ((''insecure'', IBool True) # (''ca_certificate'', IString ''garbage'')
            # demo_data)) =
       getTLSConfig demo_lib
         (ResourceData_of ((''insecure'', IBool True) # (''ca_certificate'', IString ''garbage'')
            # demo_data))
   \<and> getTLSConfig demo_lib
         (ResourceData_of ((''ca_certificate'', IString ''garbage'') # demo_data)) =
       Return (Inl FailedToParseCaCertificate)
   \<and> Get (ResourceData_of ((''ca_certificate'', IString ''garbage'') # demo_data))
         ''insecure'' = IBool False"
proof -
  let ?d1 = "ResourceData_of ((''insecure'', IBool True) #
               (''ca_certificate'', IString ''garbage'') # demo_data)"
  let ?d2 = "ResourceData_of ((''ca_certificate'', IString ''garbage'') # demo_data)"
  have 1: "Get ?d1 ''insecure'' = IBool True"
    by (simp add: ResourceData_of_def)
  have 2: "getContent demo_lib ?d1 ''ca_certificate'' ''$HELM_HOME/ca.pem'' =
             Return (Inr ''garbage'')"
    by (simp add: getContent_def demo_lib_def ResourceData_of_def as_string_def)
  have 3: "\<not> snd (AppendCertsFromPEM demo_lib (NewCertPool demo_lib) ''garbage'')"
    by (simp add: demo_lib_def)
  have 4: "getTLSConfig demo_lib ?d1 =
             Return (Inr (Some \<lparr>InsecureSkipVerify = True, Certificates = [(''CERT'', ''KEY'')],
                                 RootCAs = None\<rparr>))"
    by (simp add: getTLSConfig_def getContent_def demo_lib_def ResourceData_of_def
          demo_data_def as_string_def as_bool_def)
  have 5: "getTLSConfig demo_lib ?d2 = Return (Inl FailedToParseCaCertificate)"
    by (simp add: getTLSConfig_def getContent_def demo_lib_def ResourceData_of_def
          demo_data_def as_string_def as_bool_def)
  from getTLSConfig_insecure_never_parses_ca [of ?d1 demo_lib] 1
  have 6: "getTLSConfig (demo_lib\<lparr>NewCertPool := [''root''],
                                  AppendCertsFromPEM := (\<lambda>pool pem. (pem # pool, True))\<rparr>) ?d1 =
           getTLSConfig demo_lib ?d1"
    by blast
  from getTLSConfig_insecure_never_parses_ca [of ?d2 demo_lib] 5
  have 7: "Get ?d2 ''insecure'' = IBool False"
    by blast
  from 1 2 3 4 5 6 7 show ?thesis by blast
qed


section \<open>Claims about the builders\<close>

lemma buildK8sClient_events:
  "buildK8sClient lib d m = (r, ev) \<Longrightarrow> filter opens_portforward ev = []"
  by (auto simp: buildK8sClient_def Let_def opens_portforward_def
      split: sum.splits prod.splits option.splits if_splits)

lemma buildTunnel_noop:
  "Settings m = Some s \<Longrightarrow> TillerHost s \<noteq> [] \<Longrightarrow>
   buildTunnel lib d m = (Return (None, m), [])"
  by (simp add: buildTunnel_def)

lemma buildTunnel_opened:
  "Settings m = Some s \<Longrightarrow> TillerHost s = [] \<Longrightarrow>
   portforwarder_New lib (TillerNamespace s) (K8sClient m) (K8sConfig m) = Inr tunnel \<Longrightarrow>
   buildTunnel lib d m =
     (Return (None,
        m\<lparr>Settings := Some (s\<lparr>TillerHost := ''localhost:'' @ Sprintf_d (Local tunnel)\<rparr>)\<rparr>),
      [PortforwarderNew (TillerNamespace s), DebugCreatedTunnel (Local tunnel)])"
  by (simp add: buildTunnel_def)

lemma buildTunnel_failed:
  "Settings m = Some s \<Longrightarrow> TillerHost s = [] \<Longrightarrow>
   portforwarder_New lib (TillerNamespace s) (K8sClient m) (K8sConfig m) = Inl err \<Longrightarrow>
   buildTunnel lib d m =
     (Return (Some (ErrorCreatingTunnel err), m), [PortforwarderNew (TillerNamespace s)])"
  by (simp add: buildTunnel_def)

lemma buildMeta_tunnel_failed:
  assumes "buildSettings d Meta_zero = Return m0"
      and "buildK8sClient lib d m0 = (Return (None, m), ev)"
      and "buildTunnel lib d m = (Return (Some err, m'), ev')"
  shows "buildMeta lib d = (Return (Inl err), ev @ ev')"
  using assms by (simp add: buildMeta_def)

lemma decimal_44134: "Sprintf_d 44134 = ''44134''"
  by (simp add: Sprintf_d_def digit_def decimal.simps [of 44134] decimal.simps [of 4413]
        decimal.simps [of 441] decimal.simps [of 44] decimal.simps [of 4])


lemma static_overrides_demo:
  "static_overrides (ResourceData_of ((''namespace'', IString ''default'') # demo_data)) c = Inr c"
  by (simp add: static_overrides_def override_string_def override_bool_def and_then_def
        ResourceData_of_def demo_data_def nonzero_def)

text \<open>
  Claim C4. \<open>buildTunnel\<close> changes nothing and opens nothing when the Tiller host is
  not empty. With an empty Tiller host it calls \<open>portforwarder.New\<close> once: when that
  returns a tunnel, the Tiller host becomes \<open>localhost:\<close> followed by the tunnel's local
  port in decimal; when that fails, \<open>buildTunnel\<close> returns the error, and \<open>buildMeta\<close>,
  which reached this step, returns that error with one port-forward opened in all.
\<close>

theorem buildTunnel_noop_or_portforward:
  assumes "Settings m = Some s"
  shows
    "(TillerHost s \<noteq> [] \<longrightarrow> buildTunnel lib d m = (Return (None, m), [])) \<and>
     (TillerHost s = [] \<longrightarrow>
        (case portforwarder_New lib (TillerNamespace s) (K8sClient m) (K8sConfig m) of
           Inr tunnel \<Rightarrow>
             buildTunnel lib d m =
               (Return (None,
                  m\<lparr>Settings :=
                      Some (s\<lparr>TillerHost := ''localhost:'' @ Sprintf_d (Local tunnel)\<rparr>)\<rparr>),
                [PortforwarderNew (TillerNamespace s), DebugCreatedTunnel (Local tunnel)])
         | Inl err \<Rightarrow>
             buildTunnel lib d m =
               (Return (Some (ErrorCreatingTunnel err), m),
                [PortforwarderNew (TillerNamespace s)]) \<and>
             (\<forall>m0 ev.
                buildSettings d Meta_zero = Return m0 \<and>
                buildK8sClient lib d m0 = (Return (None, m), ev) \<longrightarrow>
                buildMeta lib d =
                  (Return (Inl (ErrorCreatingTunnel err)),
                   ev @ [PortforwarderNew (TillerNamespace s)]) \<and>
                filter opens_portforward (snd (buildMeta lib d)) =
                  [PortforwarderNew (TillerNamespace s)])))"
proof (intro conjI impI)
  assume "TillerHost s \<noteq> []"
  with assms show "buildTunnel lib d m = (Return (None, m), [])"
    by (rule buildTunnel_noop)
next
  assume empty: "TillerHost s = []"
  show "case portforwarder_New lib (TillerNamespace s) (K8sClient m) (K8sConfig m) of
           Inr tunnel \<Rightarrow>
             buildTunnel lib d m =
               (Return (None,
                  m\<lparr>Settings :=
                      Some (s\<lparr>TillerHost := ''localhost:'' @ Sprintf_d (Local tunnel)\<rparr>)\<rparr>),
                [PortforwarderNew (TillerNamespace s), DebugCreatedTunnel (Local tunnel)])
         | Inl err \<Rightarrow>
             buildTunnel lib d m =
               (Return (Some (ErrorCreatingTunnel err), m),
                [PortforwarderNew (TillerNamespace s)]) \<and>
             (\<forall>m0 ev.
                buildSettings d Meta_zero = Return m0 \<and>
                buildK8sClient lib d m0 = (Return (None, m), ev) \<longrightarrow>
                buildMeta lib d =
                  (Return (Inl (ErrorCreatingTunnel err)),
                   ev @ [PortforwarderNew (TillerNamespace s)]) \<and>
                filter opens_portforward (snd (buildMeta lib d)) =
                  [PortforwarderNew (TillerNamespace s)])"
  proof (cases "portforwarder_New lib (TillerNamespace s) (K8sClient m) (K8sConfig m)")
    case (Inr tunnel)
    with buildTunnel_opened [OF assms empty, of lib tunnel d] show ?thesis by simp
  next
    case (Inl err)
    note failed = buildTunnel_failed [OF assms empty Inl, of d]
    have meta: "buildMeta lib d =
            (Return (Inl (ErrorCreatingTunnel err)), ev @ [PortforwarderNew (TillerNamespace s)]) \<and>
          filter opens_portforward (snd (buildMeta lib d)) = [PortforwarderNew (TillerNamespace s)]"
      if "buildSettings d Meta_zero = Return m0" "buildK8sClient lib d m0 = (Return (None, m), ev)"
      for m0 ev
      using buildMeta_tunnel_failed [OF that failed] buildK8sClient_events [OF that(2)]
      by (simp add: opens_portforward_def)
    show ?thesis
      by (simp only: Inl sum.case) (use failed meta in blast)
  qed
qed

theorem buildTunnel_noop_or_portforward_witness:
  "Settings (demo_meta ''tiller:44134'' ''kube-system'') =
     Some (demo_settings ''tiller:44134'' ''kube-system'')
   \<and> TillerHost (demo_settings ''tiller:44134'' ''kube-system'') \<noteq> []
   \<and> buildTunnel demo_lib (ResourceData_of demo_data) (demo_meta ''tiller:44134'' ''kube-system'') =
       (Return (None, demo_meta ''tiller:44134'' ''kube-system''), [])
   \<and> Settings (demo_meta [] ''kube-system'') = Some (demo_settings [] ''kube-system'')
   \<and> TillerHost (demo_settings [] ''kube-system'') = []
   \<and> buildTunnel demo_lib (ResourceData_of demo_data) (demo_meta [] ''kube-system'') =
       (Return (None, demo_meta ''localhost:44134'' ''kube-system''),
        [PortforwarderNew ''kube-system'', DebugCreatedTunnel 44134])
   \<and> Settings (demo_meta [] ''default'') = Some (demo_settings [] ''default'')
   \<and> TillerHost (demo_settings [] ''default'') = []
   \<and> portforwarder_New demo_lib ''default'' (K8sClient (demo_meta [] ''default''))
         (K8sConfig (demo_meta [] ''default'')) = Inl ''could not find tiller''
   \<and> buildTunnel demo_lib (ResourceData_of ((''namespace'', IString ''default'') # demo_data))
         (demo_meta [] ''default'') =
       (Return (Some (ErrorCreatingTunnel ''could not find tiller''), demo_meta [] ''default''),
        [PortforwarderNew ''default''])
   \<and> buildSettings (ResourceData_of ((''namespace'', IString ''default'') # demo_data))
         (Meta_zero :: demo_Meta) =
       Return (Meta_zero\<lparr>Settings := Some (demo_settings [] ''default'')\<rparr>)
   \<and> buildK8sClient demo_lib (ResourceData_of ((''namespace'', IString ''default'') # demo_data))
         (Meta_zero\<lparr>Settings := Some (demo_settings [] ''default'')\<rparr>) =
       (Return (None, demo_meta [] ''default''),
        [DebugCouldNotGetKubernetesConfig [] ''no configuration has been provided''])
   \<and> buildMeta demo_lib (ResourceData_of ((''namespace'', IString ''default'') # demo_data)) =
       (Return (Inl (ErrorCreatingTunnel ''could not find tiller'')),
        [DebugCouldNotGetKubernetesConfig [] ''no configuration has been provided'',
         PortforwarderNew ''default''])
   \<and> filter opens_portforward
         (snd (buildMeta demo_lib
                 (ResourceData_of ((''namespace'', IString ''default'') # demo_data)))) =
       [PortforwarderNew ''default'']"
proof -
  let ?d = "ResourceData_of ((''namespace'', IString ''default'') # demo_data)"
  have a1: "Settings (demo_meta ''tiller:44134'' ''kube-system'') =
              Some (demo_settings ''tiller:44134'' ''kube-system'')"
    and b1: "Settings (demo_meta [] ''kube-system'') = Some (demo_settings [] ''kube-system'')"
    and c1: "Settings (demo_meta [] ''default'') = Some (demo_settings [] ''default'')"
    by (simp_all add: demo_meta_def)
  have a2: "TillerHost (demo_settings ''tiller:44134'' ''kube-system'') \<noteq> []"
    and b2: "TillerHost (demo_settings [] ''kube-system'') = []"
    and c2: "TillerHost (demo_settings [] ''default'') = []"
    by (simp_all add: demo_settings_def)
  have b3: "portforwarder_New demo_lib (TillerNamespace (demo_settings [] ''kube-system''))
              (K8sClient (demo_meta [] ''kube-system'')) (K8sConfig (demo_meta [] ''kube-system'')) =
            Inr \<lparr>Local = 44134, Remote = 44134, PodName = ''tiller''\<rparr>"
    by (simp add: demo_lib_def demo_settings_def)
  have c3: "portforwarder_New demo_lib (TillerNamespace (demo_settings [] ''default''))
              (K8sClient (demo_meta [] ''default'')) (K8sConfig (demo_meta [] ''default'')) =
            Inl ''could not find tiller''"
    by (simp add: demo_lib_def demo_settings_def)
  have c4: "buildSettings ?d (Meta_zero :: demo_Meta) =
              Return (Meta_zero\<lparr>Settings := Some (demo_settings [] ''default'')\<rparr>)"
    by (simp add: buildSettings_def and_then_def as_string_def as_bool_def ResourceData_of_def
          demo_data_def demo_settings_def)
  have c5: "buildK8sClient demo_lib ?d (Meta_zero\<lparr>Settings := Some (demo_settings [] ''default'')\<rparr>) =
              (Return (None, demo_meta [] ''default''),
               [DebugCouldNotGetKubernetesConfig [] ''no configuration has been provided''])"
  proof -
    have g1: "GetOk ?d ''kubernetes'' = (IList [], False)"
      by (simp add: ResourceData_of_def demo_data_def nonzero_def)
    have g2: "Get ?d ''kubernetes.0.config_context'' = IString []"
      by (simp add: ResourceData_of_def demo_data_def)
    have g3: "kube_GetConfig_ClientConfig demo_lib [] =
                (None, Some ''no configuration has been provided'')"
      and g4: "terraform_VersionString demo_lib = ''0.12.0''"
      and g5: "kubernetes_NewForConfig demo_lib = Inr"
      by (simp_all add: demo_lib_def fun_eq_iff)
    show ?thesis
      by (simp add: buildK8sClient_def Let_def g1 g2 g3 g4 g5 as_string_def
            static_overrides_demo demo_meta_def demo_config_def Meta_zero_def)
  qed
  note A = buildTunnel_noop_or_portforward [OF a1, of demo_lib "ResourceData_of demo_data"]
  note B = buildTunnel_noop_or_portforward [OF b1, of demo_lib "ResourceData_of demo_data"]
  note C = buildTunnel_noop_or_portforward [OF c1, of demo_lib ?d]
  have a: "buildTunnel demo_lib (ResourceData_of demo_data) (demo_meta ''tiller:44134'' ''kube-system'') =
       (Return (None, demo_meta ''tiller:44134'' ''kube-system''), [])"
    using A a2 by blast
  have b: "buildTunnel demo_lib (ResourceData_of demo_data) (demo_meta [] ''kube-system'') =
       (Return (None, demo_meta ''localhost:44134'' ''kube-system''),
        [PortforwarderNew ''kube-system'', DebugCreatedTunnel 44134])"
  proof -
    from B b2 have "buildTunnel demo_lib (ResourceData_of demo_data) (demo_meta [] ''kube-system'') =
       (Return (None, demo_meta [] ''kube-system''
          \<lparr>Settings := Some (demo_settings [] ''kube-system''
             \<lparr>TillerHost := ''localhost:'' @
                Sprintf_d (Local \<lparr>Local = 44134, Remote = 44134, PodName = ''tiller''\<rparr>)\<rparr>)\<rparr>),
        [PortforwarderNew (TillerNamespace (demo_settings [] ''kube-system'')),
         DebugCreatedTunnel (Local \<lparr>Local = 44134, Remote = 44134, PodName = ''tiller''\<rparr>)])"
      unfolding b3 sum.case by blast
    then show ?thesis
      by (simp add: decimal_44134 demo_meta_def demo_settings_def)
  qed
  have c3': "portforwarder_New demo_lib ''default'' (K8sClient (demo_meta [] ''default''))
         (K8sConfig (demo_meta [] ''default'')) = Inl ''could not find tiller''"
    using c3 by (simp add: demo_settings_def)
  from C c2 have C': "buildTunnel demo_lib ?d (demo_meta [] ''default'') =
               (Return (Some (ErrorCreatingTunnel ''could not find tiller''), demo_meta [] ''default''),
                [PortforwarderNew (TillerNamespace (demo_settings [] ''default''))]) \<and>
             (\<forall>m0 ev.
                buildSettings ?d Meta_zero = Return m0 \<and>
                buildK8sClient demo_lib ?d m0 = (Return (None, demo_meta [] ''default''), ev) \<longrightarrow>
                buildMeta demo_lib ?d =
                  (Return (Inl (ErrorCreatingTunnel ''could not find tiller'')),
                   ev @ [PortforwarderNew (TillerNamespace (demo_settings [] ''default''))]) \<and>
                filter opens_portforward (snd (buildMeta demo_lib ?d)) =
                  [PortforwarderNew (TillerNamespace (demo_settings [] ''default''))])"
    unfolding c3 sum.case by blast
  have ns: "TillerNamespace (demo_settings [] ''default'') = ''default''"
    by (simp add: demo_settings_def)
  from C' c4 c5 have c67: "buildMeta demo_lib ?d =
       (Return (Inl (ErrorCreatingTunnel ''could not find tiller'')),
        [DebugCouldNotGetKubernetesConfig [] ''no configuration has been provided''] @
        [PortforwarderNew (TillerNamespace (demo_settings [] ''default''))]) \<and>
      filter opens_portforward (snd (buildMeta demo_lib ?d)) =
        [PortforwarderNew (TillerNamespace (demo_settings [] ''default''))]"
    by blast
  have c6: "buildMeta demo_lib ?d =
       (Return (Inl (ErrorCreatingTunnel ''could not find tiller'')),
        [DebugCouldNotGetKubernetesConfig [] ''no configuration has been provided'',
         PortforwarderNew ''default''])"
    and c7: "filter opens_portforward (snd (buildMeta demo_lib ?d)) = [PortforwarderNew ''default'']"
    using c67 unfolding ns by (simp_all add: opens_portforward_def)
  have c8: "buildTunnel demo_lib ?d (demo_meta [] ''default'') =
       (Return (Some (ErrorCreatingTunnel ''could not find tiller''), demo_meta [] ''default''),
        [PortforwarderNew ''default''])"
    using C' unfolding ns by blast
  show ?thesis
    by (intro conjI) (rule a1 a2 a b1 b2 b c1 c2 c3' c8 c4 c5 c6 c7)+
qed



lemma getTLSConfig_bad_pair:
  assumes "getContent lib d ''client_key'' ''$HELM_HOME/key.pem'' = Return (Inr keyPEMBlock)"
      and "getContent lib d ''client_certificate'' ''$HELM_HOME/cert.pem'' =
             Return (Inr certPEMBlock)"
      and "keyPEMBlock \<noteq> [] \<or> certPEMBlock \<noteq> []"
      and "Get d ''insecure'' = IBool insecure"
      and "X509KeyPair lib certPEMBlock keyPEMBlock = Inl e"
  shows "getTLSConfig lib d = Return (Inl (CouldNotReadX509KeyPair e))"
  using assms by (auto simp: getTLSConfig_def as_bool_def)

lemma getTLSConfig_bad_ca:
  assumes "getContent lib d ''client_key'' ''$HELM_HOME/key.pem'' = Return (Inr keyPEMBlock)"
      and "getContent lib d ''client_certificate'' ''$HELM_HOME/cert.pem'' =
             Return (Inr certPEMBlock)"
      and "keyPEMBlock \<noteq> [] \<or> certPEMBlock \<noteq> []"
      and "Get d ''insecure'' = IBool False"
      and "X509KeyPair lib certPEMBlock keyPEMBlock = Inr cert"
      and "getContent lib d ''ca_certificate'' ''$HELM_HOME/ca.pem'' = Return (Inr caPEMBlock)"
      and "caPEMBlock \<noteq> []"
      and "\<not> snd (AppendCertsFromPEM lib (NewCertPool lib) caPEMBlock)"
  shows "getTLSConfig lib d = Return (Inl FailedToParseCaCertificate)"
  using assms
  by (cases "AppendCertsFromPEM lib (NewCertPool lib) caPEMBlock")
     (auto simp: getTLSConfig_def as_bool_def)

lemma conforms_demo:
  "conforms (ResourceData_of ((''client_key'', IString ''BADKEY'') # demo_data))"
  "conforms (ResourceData_of ((''ca_certificate'', IString ''garbage'') # demo_data))"
  by (simp_all add: conforms_def provider_schema_def ResourceData_of_def demo_data_def)

lemma getContent_demo:
  "map_of kvs key = Some (IString content) \<Longrightarrow> content \<noteq> def \<Longrightarrow>
   getContent demo_lib (ResourceData_of kvs) key def = Return (Inr content)"
  by (simp add: getContent_def ResourceData_of_def demo_lib_def as_string_def)

text \<open>
  Claim C6, as the code has it. Let the settings conform to the schema and let key and
  certificate material be present (not both empty once the default sentinels are
  dropped). If the pair is malformed, or if the pair is valid, the insecure flag is unset
  and a non-empty CA bundle cannot be parsed, then \<open>getTLSConfig\<close> returns an error,
  \<open>buildHelmClient\<close> returns that error and \<open>buildMeta\<close> returns an error.
\<close>

theorem buildHelmClient_malformed_tls_material:
  fixes lib :: "('cert, 'pool, 'kc, 'hc, 'z) provider_lib_scheme"
  assumes "conforms d"
      and "getContent lib d ''client_key'' ''$HELM_HOME/key.pem'' = Return (Inr keyPEMBlock)"
      and "getContent lib d ''client_certificate'' ''$HELM_HOME/cert.pem'' =
             Return (Inr certPEMBlock)"
      and "keyPEMBlock \<noteq> [] \<or> certPEMBlock \<noteq> []"
      and "(\<exists>e. X509KeyPair lib certPEMBlock keyPEMBlock = Inl e) \<or>
           (\<exists>cert caPEMBlock.
              X509KeyPair lib certPEMBlock keyPEMBlock = Inr cert \<and>
              Get d ''insecure'' = IBool False \<and>
              getContent lib d ''ca_certificate'' ''$HELM_HOME/ca.pem'' =
                Return (Inr caPEMBlock) \<and>
              caPEMBlock \<noteq> [] \<and>
              \<not> snd (AppendCertsFromPEM lib (NewCertPool lib) caPEMBlock))"
  shows "(\<exists>e. getTLSConfig lib d = Return (Inl e) \<and>
              (\<forall>(m :: ('kc, 'hc) Meta) s. Settings m = Some s \<longrightarrow>
                 buildHelmClient lib d m = (Return (Some e, m), []))) \<and>
         (\<exists>e ev. buildMeta lib d = (Return (Inl e), ev))"
proof -
  obtain insecure where ins: "Get d ''insecure'' = IBool insecure"
    using conforms_Get_Bool [OF assms(1), of "''insecure''"] by (auto simp: provider_schema_def)
  from assms(5) obtain e where tls: "getTLSConfig lib d = Return (Inl e)"
  proof
    assume "\<exists>e. X509KeyPair lib certPEMBlock keyPEMBlock = Inl e"
    then obtain e' where "X509KeyPair lib certPEMBlock keyPEMBlock = Inl e'" ..
    from getTLSConfig_bad_pair [OF assms(2-4) ins this] that show ?thesis by blast
  next
    assume "\<exists>cert caPEMBlock.
              X509KeyPair lib certPEMBlock keyPEMBlock = Inr cert \<and>
              Get d ''insecure'' = IBool False \<and>
              getContent lib d ''ca_certificate'' ''$HELM_HOME/ca.pem'' =
                Return (Inr caPEMBlock) \<and>
              caPEMBlock \<noteq> [] \<and>
              \<not> snd (AppendCertsFromPEM lib (NewCertPool lib) caPEMBlock)"
    then obtain cert caPEMBlock where
      "X509KeyPair lib certPEMBlock keyPEMBlock = Inr cert"
      "Get d ''insecure'' = IBool False"
      "getContent lib d ''ca_certificate'' ''$HELM_HOME/ca.pem'' = Return (Inr caPEMBlock)"
      "caPEMBlock \<noteq> []"
      "\<not> snd (AppendCertsFromPEM lib (NewCertPool lib) caPEMBlock)"
      by blast
    from getTLSConfig_bad_ca [OF assms(2-4) this(2,1,3,4,5)] that show ?thesis by blast
  qed
  have "buildHelmClient lib d m = (Return (Some e, m), [])" if "Settings m = Some s"
    for m :: "('kc, 'hc) Meta" and s
    using buildHelmClient_tls_error [OF that tls] .
  with tls buildMeta_tls_error [OF assms(1) tls] show ?thesis by blast
qed

theorem buildHelmClient_malformed_tls_material_witness:
  "conforms (ResourceData_of ((''client_key'', IString ''BADKEY'') # demo_data))
   \<and> X509KeyPair demo_lib ''CERT'' ''BADKEY'' =
       Inl ''tls: failed to find any PEM data in certificate input''
   \<and> getTLSConfig demo_lib (ResourceData_of ((''client_key'', IString ''BADKEY'') # demo_data)) =
       Return (Inl (CouldNotReadX509KeyPair
                      ''tls: failed to find any PEM data in certificate input''))
   \<and> (\<exists>e ev. buildMeta demo_lib
                (ResourceData_of ((''client_key'', IString ''BADKEY'') # demo_data)) =
              (Return (Inl e), ev))
   \<and> conforms (ResourceData_of ((''ca_certificate'', IString ''garbage'') # demo_data))
   \<and> \<not> snd (AppendCertsFromPEM demo_lib (NewCertPool demo_lib) ''garbage'')
   \<and> getTLSConfig demo_lib (ResourceData_of ((''ca_certificate'', IString ''garbage'') # demo_data)) =
       Return (Inl FailedToParseCaCertificate)
   \<and> buildHelmClient demo_lib
         (ResourceData_of ((''ca_certificate'', IString ''garbage'') # demo_data))
         (demo_meta ''tiller:44134'' ''kube-system'') =
       (Return (Some FailedToParseCaCertificate, demo_meta ''tiller:44134'' ''kube-system''), [])"
proof -
  let ?d1 = "ResourceData_of ((''client_key'', IString ''BADKEY'') # demo_data)"
  let ?d2 = "ResourceData_of ((''ca_certificate'', IString ''garbage'') # demo_data)"
  have k1: "getContent demo_lib ?d1 ''client_key'' ''$HELM_HOME/key.pem'' = Return (Inr ''BADKEY'')"
    and c1: "getContent demo_lib ?d1 ''client_certificate'' ''$HELM_HOME/cert.pem'' =
               Return (Inr ''CERT'')"
    and k2: "getContent demo_lib ?d2 ''client_key'' ''$HELM_HOME/key.pem'' = Return (Inr ''KEY'')"
    and c2: "getContent demo_lib ?d2 ''client_certificate'' ''$HELM_HOME/cert.pem'' =
               Return (Inr ''CERT'')"
    and ca2: "getContent demo_lib ?d2 ''ca_certificate'' ''$HELM_HOME/ca.pem'' =
               Return (Inr ''garbage'')"
    by (rule getContent_demo; simp add: demo_data_def)+
  have ne1: "''BADKEY'' \<noteq> [] \<or> ''CERT'' \<noteq> []" and ne2: "''KEY'' \<noteq> [] \<or> ''CERT'' \<noteq> []"
    by simp_all
  have x1: "X509KeyPair demo_lib ''CERT'' ''BADKEY'' =
              Inl ''tls: failed to find any PEM data in certificate input''"
    and x2: "X509KeyPair demo_lib ''CERT'' ''KEY'' = Inr (''CERT'', ''KEY'')"
    and a2: "\<not> snd (AppendCertsFromPEM demo_lib (NewCertPool demo_lib) ''garbage'')"
    by (simp_all add: demo_lib_def)
  have i1: "Get ?d1 ''insecure'' = IBool False" and i2: "Get ?d2 ''insecure'' = IBool False"
    by (simp_all add: ResourceData_of_def demo_data_def)
  have s: "Settings (demo_meta ''tiller:44134'' ''kube-system'') =
             Some (demo_settings ''tiller:44134'' ''kube-system'')"
    by (simp add: demo_meta_def)
  have h1: "(\<exists>e. X509KeyPair demo_lib ''CERT'' ''BADKEY'' = Inl e) \<or>
           (\<exists>cert caPEMBlock.
              X509KeyPair demo_lib ''CERT'' ''BADKEY'' = Inr cert \<and>
              Get ?d1 ''insecure'' = IBool False \<and>
              getContent demo_lib ?d1 ''ca_certificate'' ''$HELM_HOME/ca.pem'' =
                Return (Inr caPEMBlock) \<and>
              caPEMBlock \<noteq> [] \<and>
              \<not> snd (AppendCertsFromPEM demo_lib (NewCertPool demo_lib) caPEMBlock))"
    using x1 by blast
  have h2: "(\<exists>e. X509KeyPair demo_lib ''CERT'' ''KEY'' = Inl e) \<or>
           (\<exists>cert caPEMBlock.
              X509KeyPair demo_lib ''CERT'' ''KEY'' = Inr cert \<and>
              Get ?d2 ''insecure'' = IBool False \<and>
              getContent demo_lib ?d2 ''ca_certificate'' ''$HELM_HOME/ca.pem'' =
                Return (Inr caPEMBlock) \<and>
              caPEMBlock \<noteq> [] \<and>
              \<not> snd (AppendCertsFromPEM demo_lib (NewCertPool demo_lib) caPEMBlock))"
    using x2 i2 ca2 a2 by blast
  note W1 = buildHelmClient_malformed_tls_material [OF conforms_demo(1) k1 c1 ne1 h1]
  note W2 = buildHelmClient_malformed_tls_material [OF conforms_demo(2) k2 c2 ne2 h2]
  have t1: "getTLSConfig demo_lib ?d1 =
       Return (Inl (CouldNotReadX509KeyPair
                      ''tls: failed to find any PEM data in certificate input''))"
    by (rule getTLSConfig_bad_pair [OF k1 c1 ne1 i1 x1])
  have t2: "getTLSConfig demo_lib ?d2 = Return (Inl FailedToParseCaCertificate)"
    by (rule getTLSConfig_bad_ca [OF k2 c2 ne2 i2 x2 ca2 _ a2]) simp
  from W2 t2 s have b2: "buildHelmClient demo_lib ?d2 (demo_meta ''tiller:44134'' ''kube-system'') =
       (Return (Some FailedToParseCaCertificate, demo_meta ''tiller:44134'' ''kube-system''), [])"
    by auto
  from W1 have m1: "\<exists>e ev. buildMeta demo_lib ?d1 = (Return (Inl e), ev)" ..
  show ?thesis
    by (intro conjI) (rule conforms_demo x1 t1 m1 a2 t2 b2)+
qed

text \<open>
  Without these restrictions the statement fails. With the insecure flag set, and a
  valid pair, a CA bundle that cannot be parsed is never parsed, and the Helm client is
  built with TLS. With neither key nor certificate (both settings at their default
  sentinels) and the insecure flag unset, the same CA bundle is not even read, and the
  Helm client is built without TLS.
\<close>

theorem buildHelmClient_unparseable_ca_counterexample:
  "getContent demo_lib
     (ResourceData_of ((''insecure'', IBool True) # (''ca_certificate'', IString ''garbage'')
        # demo_data)) ''ca_certificate'' ''$HELM_HOME/ca.pem'' = Return (Inr ''garbage'')
   \<and> \<not> snd (AppendCertsFromPEM demo_lib (NewCertPool demo_lib) ''garbage'')
   \<and> buildHelmClient demo_lib
         (ResourceData_of ((''insecure'', IBool True) # (''ca_certificate'', IString ''garbage'')
            # demo_data))
         (demo_meta ''tiller:44134'' ''kube-system'') =
       (Return (None,
          (demo_meta ''tiller:44134'' ''kube-system'')
            \<lparr>HelmClient :=
               Some [helm_Host ''tiller:44134'',
                     helm_WithTLS \<lparr>InsecureSkipVerify = True,
                                   Certificates = [(''CERT'', ''KEY'')], RootCAs = None\<rparr>]\<rparr>),
        [])
   \<and> getContent demo_lib
         (ResourceData_of ((''client_key'', IString ''$HELM_HOME/key.pem'') #
            (''client_certificate'', IString ''$HELM_HOME/cert.pem'') #
            (''ca_certificate'', IString ''garbage'') # demo_data))
         ''ca_certificate'' ''$HELM_HOME/ca.pem'' = Return (Inr ''garbage'')
   \<and> Get (ResourceData_of ((''client_key'', IString ''$HELM_HOME/key.pem'') #
            (''client_certificate'', IString ''$HELM_HOME/cert.pem'') #
            (''ca_certificate'', IString ''garbage'') # demo_data)) ''insecure'' = IBool False
   \<and> buildHelmClient demo_lib
         (ResourceData_of ((''client_key'', IString ''$HELM_HOME/key.pem'') #
            (''client_certificate'', IString ''$HELM_HOME/cert.pem'') #
            (''ca_certificate'', IString ''garbage'') # demo_data))
         (demo_meta ''tiller:44134'' ''kube-system'') =
       (Return (None,
          (demo_meta ''tiller:44134'' ''kube-system'')
            \<lparr>HelmClient := Some [helm_Host ''tiller:44134'']\<rparr>),
        [])"
proof -
  let ?d = "ResourceData_of ((''insecure'', IBool True) #
              (''ca_certificate'', IString ''garbage'') # demo_data)"
  let ?e = "ResourceData_of ((''client_key'', IString ''$HELM_HOME/key.pem'') #
              (''client_certificate'', IString ''$HELM_HOME/cert.pem'') #
              (''ca_certificate'', IString ''garbage'') # demo_data)"
  have 1: "getContent demo_lib ?d ''ca_certificate'' ''$HELM_HOME/ca.pem'' =
             Return (Inr ''garbage'')"
    by (rule getContent_demo; simp add: demo_data_def)
  have 2: "\<not> snd (AppendCertsFromPEM demo_lib (NewCertPool demo_lib) ''garbage'')"
    by (simp add: demo_lib_def)
  have 3: "getTLSConfig demo_lib ?d =
             Return (Inr (Some \<lparr>InsecureSkipVerify = True, Certificates = [(''CERT'', ''KEY'')],
                                 RootCAs = None\<rparr>))"
    by (simp add: getTLSConfig_def getContent_def demo_lib_def ResourceData_of_def
          demo_data_def as_string_def as_bool_def)
  have 4: "helm_NewClient demo_lib = (\<lambda>options. options)"
    by (simp add: demo_lib_def)
  have 5: "buildHelmClient demo_lib ?d (demo_meta ''tiller:44134'' ''kube-system'') =
       (Return (None,
          (demo_meta ''tiller:44134'' ''kube-system'')
            \<lparr>HelmClient :=
               Some [helm_Host ''tiller:44134'',
                     helm_WithTLS \<lparr>InsecureSkipVerify = True,
                                   Certificates = [(''CERT'', ''KEY'')], RootCAs = None\<rparr>]\<rparr>),
        [])"
    by (simp add: buildHelmClient_def 3 4 demo_meta_def demo_settings_def)
  have 6: "getContent demo_lib ?e ''ca_certificate'' ''$HELM_HOME/ca.pem'' =
             Return (Inr ''garbage'')"
    by (rule getContent_demo; simp add: demo_data_def)
  have 7: "Get ?e ''insecure'' = IBool False"
    by (simp add: ResourceData_of_def demo_data_def)
  have 8: "getTLSConfig demo_lib ?e = Return (Inr None)"
    by (simp add: getTLSConfig_def getContent_def demo_lib_def ResourceData_of_def
          demo_data_def as_string_def as_bool_def)
  have 9: "buildHelmClient demo_lib ?e (demo_meta ''tiller:44134'' ''kube-system'') =
       (Return (None,
          (demo_meta ''tiller:44134'' ''kube-system'')
            \<lparr>HelmClient := Some [helm_Host ''tiller:44134'']\<rparr>),
        [])"
    by (simp add: buildHelmClient_def 8 4 demo_meta_def demo_settings_def)
  show ?thesis
    by (intro conjI) (rule 1 2 5 6 7 9)+
qed

text \<open>
  Claim C2, at an input where the code departs from it. No kubeconfig can be loaded and
  the \<open>kubernetes\<close> block is present with a host, from which
  \<open>kubernetes.NewForConfig\<close> would build a client: \<open>buildK8sClient\<close> returns the
  kubeconfig error and builds no client.
\<close>

theorem buildK8sClient_rejects_static_configuration:
  "snd (GetOk (ResourceData_of
          ((''kubernetes'', IList [IMap [(''host'', IString ''https://10.0.0.1'')]]) #
           (''kubernetes.0.host'', IString ''https://10.0.0.1'') # demo_data)) ''kubernetes'')
   \<and> kube_GetConfig_ClientConfig demo_lib [] = (None, Some ''no configuration has been provided'')
   \<and> static_overrides
         (ResourceData_of
            ((''kubernetes'', IList [IMap [(''host'', IString ''https://10.0.0.1'')]]) #
             (''kubernetes.0.host'', IString ''https://10.0.0.1'') # demo_data))
         demo_config = Inr (demo_config\<lparr>Host := ''https://10.0.0.1''\<rparr>)
   \<and> kubernetes_NewForConfig demo_lib (demo_config\<lparr>Host := ''https://10.0.0.1''\<rparr>) =
       Inr (demo_config\<lparr>Host := ''https://10.0.0.1''\<rparr>)
   \<and> buildK8sClient demo_lib
         (ResourceData_of
            ((''kubernetes'', IList [IMap [(''host'', IString ''https://10.0.0.1'')]]) #
             (''kubernetes.0.host'', IString ''https://10.0.0.1'') # demo_data))
         (Meta_zero\<lparr>Settings := Some (demo_settings [] ''kube-system'')\<rparr> :: demo_Meta) =
       (Return (Some (LibError ''no configuration has been provided''),
                Meta_zero\<lparr>Settings := Some (demo_settings [] ''kube-system'')\<rparr>),
        [DebugCouldNotGetKubernetesConfig [] ''no configuration has been provided''])"
proof -
  let ?d = "ResourceData_of
            ((''kubernetes'', IList [IMap [(''host'', IString ''https://10.0.0.1'')]]) #
             (''kubernetes.0.host'', IString ''https://10.0.0.1'') # demo_data)"
  have 1: "GetOk ?d ''kubernetes'' = (IList [IMap [(''host'', IString ''https://10.0.0.1'')]], True)"
    by (simp add: ResourceData_of_def nonzero_def)
  have 2: "kube_GetConfig_ClientConfig demo_lib [] =
             (None, Some ''no configuration has been provided'')"
    by (simp add: demo_lib_def)
  have 3: "static_overrides ?d demo_config = Inr (demo_config\<lparr>Host := ''https://10.0.0.1''\<rparr>)"
    by (simp add: static_overrides_def override_string_def override_bool_def and_then_def
          ResourceData_of_def demo_data_def nonzero_def as_string_def)
  have 4: "kubernetes_NewForConfig demo_lib (demo_config\<lparr>Host := ''https://10.0.0.1''\<rparr>) =
             Inr (demo_config\<lparr>Host := ''https://10.0.0.1''\<rparr>)"
    by (simp add: demo_lib_def)
  have 5: "Get ?d ''kubernetes.0.config_context'' = IString []"
    by (simp add: ResourceData_of_def demo_data_def)
  have 6: "buildK8sClient demo_lib ?d
             (Meta_zero\<lparr>Settings := Some (demo_settings [] ''kube-system'')\<rparr> :: demo_Meta) =
           (Return (Some (LibError ''no configuration has been provided''),
                    Meta_zero\<lparr>Settings := Some (demo_settings [] ''kube-system'')\<rparr>),
            [DebugCouldNotGetKubernetesConfig [] ''no configuration has been provided''])"
    by (simp add: buildK8sClient_def Let_def 1 2 5 as_string_def)
  from 1 have 7: "snd (GetOk ?d ''kubernetes'')" by simp
  show ?thesis
    by (intro conjI) (rule 7 2 3 4 6)+
qed


section \<open>Claims about the kubeconfig resolver\<close>

lemma secure_defaults_overrides:
  assumes "build_overrides lib k = Next s"
  shows "(CertificateAuthorityData (ClusterInfo (overrides s)) \<noteq> [] \<or>
          ClientCertificateData (AuthInfo (overrides s)) \<noteq> [] \<or>
          InsecureSkipTLSVerify (ClusterInfo (overrides s))) = secure_defaults lib k"
proof -
  note f = build_overrides_fields [OF assms]
  have ca: "(CertificateAuthorityData (ClusterInfo (overrides s)) \<noteq> []) =
        (snd (k8sGetOk lib (ConfigData k) ''cluster_ca_certificate'') \<and>
         fst (k8sGetOk lib (ConfigData k) ''cluster_ca_certificate'') \<noteq> IString [])"
    using f(2) by (auto simp: copied_or_unset_def split: if_splits)
  have cert: "(ClientCertificateData (AuthInfo (overrides s)) \<noteq> []) =
        (snd (k8sGetOk lib (ConfigData k) ''client_certificate'') \<and>
         fst (k8sGetOk lib (ConfigData k) ''client_certificate'') \<noteq> IString [])"
    using f(3) by (auto simp: copied_or_unset_def split: if_splits)
  have ins: "InsecureSkipTLSVerify (ClusterInfo (overrides s)) =
        (k8sGetOk lib (ConfigData k) ''insecure'' = (IBool True, True))"
    using f(1)
    by (cases "k8sGetOk lib (ConfigData k) ''insecure''")
       (auto simp: copied_or_unset_def split: if_splits)
  show ?thesis
    unfolding secure_defaults_def ca cert ins ..
qed

lemma exec_env_Inr:
  "exec_env kvs acc = Inr env \<Longrightarrow>
   map (\<lambda>e. (Name e, IString (Value e))) env = map (\<lambda>e. (Name e, IString (Value e))) acc @ kvs"
proof (induction kvs arbitrary: acc)
  case Nil
  then show ?case by simp
next
  case (Cons kv kvs)
  obtain kk vv where kv: "kv = (kk, vv)" by (cases kv)
  from Cons.prems obtain s where vv: "vv = IString s"
    and r: "exec_env kvs (acc @ [\<lparr>Name = kk, Value = s\<rparr>]) = Inr env"
    by (auto simp: kv as_string_def split: iface.splits)
  from Cons.IH [OF r] show ?case by (simp add: kv vv)
qed

lemma exec_config_Return:
  assumes "exec_config lib spec = Return exec"
  shows "exec_copied lib spec exec"
proof -
  from assms obtain apiVersion command args args' env env' where
    a: "index_map spec ''api_version'' = IString apiVersion" and
    c: "index_map spec ''command'' = IString command" and
    g: "index_map spec ''args'' = IList args" "expandStringSlice lib args = Return args'" and
    e: "index_map spec ''env'' = IMap env" "exec_env env [] = Inr env'" and
    x: "exec = ExecConfig_zero\<lparr>APIVersion := apiVersion, Command := command,
                               Args := args', Env := env'\<rparr>"
    by (auto simp: exec_config_def as_string_def as_list_def as_map_def
          split: iface.splits sum.splits outcome.splits)
  from exec_env_Inr [OF e(2)] have "map (\<lambda>e. (Name e, IString (Value e))) env' = env" by simp
  with a c g e(1) x show ?thesis
    by (simp add: exec_copied_def ExecConfig_zero_def)
qed

lemma reports_set_values_secure_defaults:
  assumes "build_overrides lib k = Next s" and "reports_set_values lib k"
  shows "secure_defaults lib k =
           (snd (k8sGetOk lib (ConfigData k) ''cluster_ca_certificate'') \<or>
            snd (k8sGetOk lib (ConfigData k) ''client_certificate'') \<or>
            snd (k8sGetOk lib (ConfigData k) ''insecure''))"
proof -
  note f = build_overrides_fields [OF assms(1)]
  have ca: "fst (k8sGetOk lib (ConfigData k) ''cluster_ca_certificate'') \<noteq> IString []"
    if "snd (k8sGetOk lib (ConfigData k) ''cluster_ca_certificate'')"
    using that assms(2) by (auto simp: reports_set_values_def nonzero_def)
  have cert: "fst (k8sGetOk lib (ConfigData k) ''client_certificate'') \<noteq> IString []"
    if "snd (k8sGetOk lib (ConfigData k) ''client_certificate'')"
    using that assms(2) by (auto simp: reports_set_values_def nonzero_def)
  have ins: "k8sGetOk lib (ConfigData k) ''insecure'' = (IBool True, True)"
    if "snd (k8sGetOk lib (ConfigData k) ''insecure'')"
    using that assms(2) f(1)
    by (cases "k8sGetOk lib (ConfigData k) ''insecure''")
       (auto simp: reports_set_values_def nonzero_def copied_or_unset_def)
  show ?thesis
    unfolding secure_defaults_def using ca cert ins by auto
qed


lemma toRawKubeConfigLoader_Some:
  assumes "fst (toRawKubeConfigLoader lib k) = Return (Some cfg)"
  shows "\<exists>s. build_overrides lib k = Next s \<and>
             NewNonInteractiveDeferredLoadingClientConfig lib (loader s) (overrides s) = Some cfg \<and>
             toRawKubeConfigLoader lib k =
               (Return (Some cfg), logged s @ [InfoSuccessfullyInitializedConfig])"
  using assms
  by (auto simp: toRawKubeConfigLoader_def split: flow.splits option.splits)

text \<open>
  Claim C1. When \<open>toRawKubeConfigLoader\<close> returns a loader and a host is supplied, the
  server override in the overrides from which the loader was constructed is the string
  of the URL that \<open>rest.DefaultServerURL\<close> computes for that host, with the
  secure-defaults flag set exactly when CA certificate data or client certificate data is
  supplied and not empty, or the insecure flag is supplied and true; where the helper
  reports these three settings the way \<open>GetOk\<close> does, that is exactly when one of them
  is supplied. With a client certificate the flag is set.
\<close>

theorem server_override_follows_DefaultServerURL:
  assumes "fst (toRawKubeConfigLoader lib k) = Return (Some cfg)"
      and "snd (k8sGetOk lib (ConfigData k) ''host'')"
  shows "\<exists>s h url path.
           build_overrides lib k = Next s \<and>
           NewNonInteractiveDeferredLoadingClientConfig lib (loader s) (overrides s) = Some cfg \<and>
           fst (k8sGetOk lib (ConfigData k) ''host'') = IString h \<and>
           rest_DefaultServerURL lib h [] GroupVersion_zero (secure_defaults lib k) =
             Inr (url, path) \<and>
           Server (ClusterInfo (overrides s)) = url_String lib url \<and>
           (reports_set_values lib k \<longrightarrow>
              secure_defaults lib k =
                (snd (k8sGetOk lib (ConfigData k) ''cluster_ca_certificate'') \<or>
                 snd (k8sGetOk lib (ConfigData k) ''client_certificate'') \<or>
                 snd (k8sGetOk lib (ConfigData k) ''insecure''))) \<and>
           (snd (k8sGetOk lib (ConfigData k) ''client_certificate'') \<and>
            fst (k8sGetOk lib (ConfigData k) ''client_certificate'') \<noteq> IString [] \<longrightarrow>
              rest_DefaultServerURL lib h [] GroupVersion_zero True = Inr (url, path))"
proof -
  from toRawKubeConfigLoader_Some [OF assms(1)] obtain s where
    s: "build_overrides lib k = Next s" and
    c: "NewNonInteractiveDeferredLoadingClientConfig lib (loader s) (overrides s) = Some cfg"
    by blast
  from build_overrides_fields(9) [OF s] assms(2) obtain h url path where
    h: "fst (k8sGetOk lib (ConfigData k) ''host'') = IString h" and
    u: "rest_DefaultServerURL lib h [] GroupVersion_zero
          (CertificateAuthorityData (ClusterInfo (overrides s)) \<noteq> [] \<or>
           ClientCertificateData (AuthInfo (overrides s)) \<noteq> [] \<or>
           InsecureSkipTLSVerify (ClusterInfo (overrides s))) = Inr (url, path)" and
    v: "Server (ClusterInfo (overrides s)) = url_String lib url"
    by auto
  from u have u': "rest_DefaultServerURL lib h [] GroupVersion_zero (secure_defaults lib k) =
                     Inr (url, path)"
    unfolding secure_defaults_overrides [OF s] .
  have "rest_DefaultServerURL lib h [] GroupVersion_zero True = Inr (url, path)"
    if "snd (k8sGetOk lib (ConfigData k) ''client_certificate'') \<and>
        fst (k8sGetOk lib (ConfigData k) ''client_certificate'') \<noteq> IString []"
  proof -
    from that have "secure_defaults lib k" by (simp add: secure_defaults_def)
    with u' show ?thesis by simp
  qed
  with s c h u' v reports_set_values_secure_defaults [OF s] show ?thesis by blast
qed


lemma then_do_not_Next: "f \<noteq> Next s' \<Longrightarrow> \<forall>s'. f \<noteq> Next s' \<Longrightarrow> then_do f g \<noteq> Next s"
  by (cases f) (simp_all add: then_do_def)


lemma ToRawKubeConfigLoader_cached:
  "clientConfig k = Some cfg \<Longrightarrow> ToRawKubeConfigLoader lib k = (Return (Some cfg), k, [])"
  by (simp add: ToRawKubeConfigLoader_def)

lemma successive_calls_cached:
  "clientConfig k = Some cfg \<Longrightarrow>
   successive_calls libs k = replicate (length libs) (Return (Some cfg), [])"
  by (induction libs) (simp_all add: ToRawKubeConfigLoader_cached)

lemma ToRawKubeConfigLoader_result:
  assumes "ToRawKubeConfigLoader lib k = (Return r, k', l)"
  shows "clientConfig k' = r"
  using assms
  by (auto simp: ToRawKubeConfigLoader_def split: if_splits prod.splits outcome.splits)

text \<open>
  Claim C5. After a call of \<open>ToRawKubeConfigLoader\<close> that returned a loader, the
  \<open>KubeConfig\<close> holds that loader, and every later call on it, in any environment,
  returns the same loader, changes nothing and logs nothing: nothing is constructed
  again. After a call that returned nil, nothing is held, and a later call resolves
  again.
\<close>

theorem ToRawKubeConfigLoader_memoizes_success:
  "(ToRawKubeConfigLoader lib k = (Return (Some cfg), k', l) \<longrightarrow>
      clientConfig k' = Some cfg \<and>
      (\<forall>lib'. ToRawKubeConfigLoader lib' k' = (Return (Some cfg), k', [])) \<and>
      (\<forall>libs. successive_calls libs k' = replicate (length libs) (Return (Some cfg), []))) \<and>
   (ToRawKubeConfigLoader lib k = (Return None, k', l) \<longrightarrow>
      clientConfig k' = None \<and>
      (\<forall>lib'. fst (ToRawKubeConfigLoader lib' k') = fst (toRawKubeConfigLoader lib' k')))"
proof (intro conjI impI)
  assume a: "ToRawKubeConfigLoader lib k = (Return (Some cfg), k', l)"
  from ToRawKubeConfigLoader_result [OF a] show c: "clientConfig k' = Some cfg" .
  from c show "\<forall>lib'. ToRawKubeConfigLoader lib' k' = (Return (Some cfg), k', [])"
    by (simp add: ToRawKubeConfigLoader_cached)
  from c show "\<forall>libs. successive_calls libs k' = replicate (length libs) (Return (Some cfg), [])"
    by (simp add: successive_calls_cached)
next
  assume a: "ToRawKubeConfigLoader lib k = (Return None, k', l)"
  from ToRawKubeConfigLoader_result [OF a] show c: "clientConfig k' = None" .
  show "\<forall>lib'. fst (ToRawKubeConfigLoader lib' k') = fst (toRawKubeConfigLoader lib' k')"
    by (auto simp: ToRawKubeConfigLoader_def c split: prod.splits outcome.splits)
qed

lemma run_static:
  "toRawKubeConfigLoader demo_kube_lib (demo_KubeConfig demo_static) =
     (Return (Some (ClientConfigLoadingRules_zero,
        ConfigOverrides_zero
          \<lparr>AuthInfo := (AuthInfo ConfigOverrides_zero)\<lparr>ClientCertificateData := ''CERT''\<rparr>,
           ClusterInfo := (ClusterInfo ConfigOverrides_zero)\<lparr>Server := ''https://10.0.0.1:6443''\<rparr>,
           Context := api_Context_zero\<lparr>ctx_Namespace := ''default''\<rparr>\<rparr>)),
      [InfoSuccessfullyInitializedConfig])"
  by code_simp

lemma build_static:
  "build_overrides demo_kube_lib (demo_KubeConfig demo_static) =
     Next \<lparr>overrides = ConfigOverrides_zero
          \<lparr>AuthInfo := (AuthInfo ConfigOverrides_zero)\<lparr>ClientCertificateData := ''CERT''\<rparr>,
           ClusterInfo := (ClusterInfo ConfigOverrides_zero)\<lparr>Server := ''https://10.0.0.1:6443''\<rparr>,
           Context := api_Context_zero\<lparr>ctx_Namespace := ''default''\<rparr>\<rparr>,
        loader = ClientConfigLoadingRules_zero, logged = []\<rparr>"
  by code_simp

lemma settings_static:
  "k8sGetOk demo_kube_lib (ConfigData (demo_KubeConfig demo_static)) ''host'' =
     (IString ''10.0.0.1:6443'', True)"
  "k8sGetOk demo_kube_lib (ConfigData (demo_KubeConfig demo_static)) ''client_certificate'' =
     (IString ''CERT'', True)"
  "k8sGetOk demo_kube_lib (ConfigData (demo_KubeConfig demo_static)) ''config_context'' =
     (IString ''prod'', True)"
  "Namespace (demo_KubeConfig demo_static) = None"
  "clientConfig (demo_KubeConfig kvs) = None"
  by (simp_all add: demo_kube_lib_def demo_KubeConfig_def ResourceData_of_def demo_static_def
        nonzero_def)

theorem server_override_follows_DefaultServerURL_witness:
  "fst (toRawKubeConfigLoader demo_kube_lib (demo_KubeConfig demo_static)) =
     Return (Some (ClientConfigLoadingRules_zero,
        ConfigOverrides_zero
          \<lparr>AuthInfo := (AuthInfo ConfigOverrides_zero)\<lparr>ClientCertificateData := ''CERT''\<rparr>,
           ClusterInfo := (ClusterInfo ConfigOverrides_zero)\<lparr>Server := ''https://10.0.0.1:6443''\<rparr>,
           Context := api_Context_zero\<lparr>ctx_Namespace := ''default''\<rparr>\<rparr>))
   \<and> snd (k8sGetOk demo_kube_lib (ConfigData (demo_KubeConfig demo_static)) ''host'')
   \<and> reports_set_values demo_kube_lib (demo_KubeConfig demo_static)
   \<and> secure_defaults demo_kube_lib (demo_KubeConfig demo_static)
   \<and> rest_DefaultServerURL demo_kube_lib ''10.0.0.1:6443'' [] GroupVersion_zero True =
       Inr (''https://10.0.0.1:6443'', [])
   \<and> (\<exists>s. build_overrides demo_kube_lib (demo_KubeConfig demo_static) = Next s \<and>
            Server (ClusterInfo (overrides s)) = ''https://10.0.0.1:6443'')"
proof -
  let ?k = "demo_KubeConfig demo_static"
  have 1: "fst (toRawKubeConfigLoader demo_kube_lib ?k) =
     Return (Some (ClientConfigLoadingRules_zero,
        ConfigOverrides_zero
          \<lparr>AuthInfo := (AuthInfo ConfigOverrides_zero)\<lparr>ClientCertificateData := ''CERT''\<rparr>,
           ClusterInfo := (ClusterInfo ConfigOverrides_zero)\<lparr>Server := ''https://10.0.0.1:6443''\<rparr>,
           Context := api_Context_zero\<lparr>ctx_Namespace := ''default''\<rparr>\<rparr>))"
    by (simp add: run_static)
  have 2: "snd (k8sGetOk demo_kube_lib (ConfigData ?k) ''host'')"
    by (simp add: settings_static)
  have 7: "reports_set_values demo_kube_lib ?k"
    by (simp add: reports_set_values_def demo_kube_lib_def demo_KubeConfig_def
          ResourceData_of_def demo_static_def nonzero_def)
  have 4: "rest_DefaultServerURL demo_kube_lib ''10.0.0.1:6443'' [] GroupVersion_zero True =
             Inr (''https://10.0.0.1:6443'', [])"
    and 5: "url_String demo_kube_lib = (\<lambda>url. url)"
    by (simp_all add: demo_kube_lib_def)
  from server_override_follows_DefaultServerURL [OF 1 2] obtain s h url path where
    s: "build_overrides demo_kube_lib ?k = Next s" and
    h: "fst (k8sGetOk demo_kube_lib (ConfigData ?k) ''host'') = IString h" and
    u: "rest_DefaultServerURL demo_kube_lib h [] GroupVersion_zero
          (secure_defaults demo_kube_lib ?k) = Inr (url, path)" and
    v: "Server (ClusterInfo (overrides s)) = url_String demo_kube_lib url" and
    w: "reports_set_values demo_kube_lib ?k \<longrightarrow>
          secure_defaults demo_kube_lib ?k =
            (snd (k8sGetOk demo_kube_lib (ConfigData ?k) ''cluster_ca_certificate'') \<or>
             snd (k8sGetOk demo_kube_lib (ConfigData ?k) ''client_certificate'') \<or>
             snd (k8sGetOk demo_kube_lib (ConfigData ?k) ''insecure''))"
    by blast
  from w 7 have 3: "secure_defaults demo_kube_lib ?k"
    by (simp add: settings_static)
  from h have "h = ''10.0.0.1:6443''" by (simp add: settings_static)
  with u 3 4 have "url = ''https://10.0.0.1:6443''" by simp
  with v 5 have "Server (ClusterInfo (overrides s)) = ''https://10.0.0.1:6443''" by simp
  with s have 6: "\<exists>s. build_overrides demo_kube_lib ?k = Next s \<and>
            Server (ClusterInfo (overrides s)) = ''https://10.0.0.1:6443''" by blast
  show ?thesis
    by (intro conjI) (rule 1 2 7 3 4 6)+
qed

theorem ToRawKubeConfigLoader_memoizes_success_witness:
  "ToRawKubeConfigLoader demo_kube_lib (demo_KubeConfig demo_static) =
     (Return (Some (ClientConfigLoadingRules_zero,
        ConfigOverrides_zero
          \<lparr>AuthInfo := (AuthInfo ConfigOverrides_zero)\<lparr>ClientCertificateData := ''CERT''\<rparr>,
           ClusterInfo := (ClusterInfo ConfigOverrides_zero)\<lparr>Server := ''https://10.0.0.1:6443''\<rparr>,
           Context := api_Context_zero\<lparr>ctx_Namespace := ''default''\<rparr>\<rparr>)),
      (demo_KubeConfig demo_static)
        \<lparr>clientConfig := Some (ClientConfigLoadingRules_zero,
        ConfigOverrides_zero
          \<lparr>AuthInfo := (AuthInfo ConfigOverrides_zero)\<lparr>ClientCertificateData := ''CERT''\<rparr>,
           ClusterInfo := (ClusterInfo ConfigOverrides_zero)\<lparr>Server := ''https://10.0.0.1:6443''\<rparr>,
           Context := api_Context_zero\<lparr>ctx_Namespace := ''default''\<rparr>\<rparr>)\<rparr>,
      [InfoSuccessfullyInitializedConfig])
   \<and> ToRawKubeConfigLoader
         (demo_kube_lib\<lparr>NewNonInteractiveDeferredLoadingClientConfig := (\<lambda>rules ov. None)\<rparr>)
         ((demo_KubeConfig demo_static)
        \<lparr>clientConfig := Some (ClientConfigLoadingRules_zero,
        ConfigOverrides_zero
          \<lparr>AuthInfo := (AuthInfo ConfigOverrides_zero)\<lparr>ClientCertificateData := ''CERT''\<rparr>,
           ClusterInfo := (ClusterInfo ConfigOverrides_zero)\<lparr>Server := ''https://10.0.0.1:6443''\<rparr>,
           Context := api_Context_zero\<lparr>ctx_Namespace := ''default''\<rparr>\<rparr>)\<rparr>) =
     (Return (Some (ClientConfigLoadingRules_zero,
        ConfigOverrides_zero
          \<lparr>AuthInfo := (AuthInfo ConfigOverrides_zero)\<lparr>ClientCertificateData := ''CERT''\<rparr>,
           ClusterInfo := (ClusterInfo ConfigOverrides_zero)\<lparr>Server := ''https://10.0.0.1:6443''\<rparr>,
           Context := api_Context_zero\<lparr>ctx_Namespace := ''default''\<rparr>\<rparr>)),
      (demo_KubeConfig demo_static)
        \<lparr>clientConfig := Some (ClientConfigLoadingRules_zero,
        ConfigOverrides_zero
          \<lparr>AuthInfo := (AuthInfo ConfigOverrides_zero)\<lparr>ClientCertificateData := ''CERT''\<rparr>,
           ClusterInfo := (ClusterInfo ConfigOverrides_zero)\<lparr>Server := ''https://10.0.0.1:6443''\<rparr>,
           Context := api_Context_zero\<lparr>ctx_Namespace := ''default''\<rparr>\<rparr>)\<rparr>,
      [])
   \<and> ToRawKubeConfigLoader
         (demo_kube_lib\<lparr>NewNonInteractiveDeferredLoadingClientConfig := (\<lambda>rules ov. None)\<rparr>)
         (demo_KubeConfig demo_static) =
       (Return None, demo_KubeConfig demo_static, [ErrorFailedToInitializeKubernetesConfig])
   \<and> clientConfig (demo_KubeConfig demo_static) = None"
proof -
  let ?k = "demo_KubeConfig demo_static"
  let ?cfg = "(ClientConfigLoadingRules_zero,
        ConfigOverrides_zero
          \<lparr>AuthInfo := (AuthInfo ConfigOverrides_zero)\<lparr>ClientCertificateData := ''CERT''\<rparr>,
           ClusterInfo := (ClusterInfo ConfigOverrides_zero)\<lparr>Server := ''https://10.0.0.1:6443''\<rparr>,
           Context := api_Context_zero\<lparr>ctx_Namespace := ''default''\<rparr>\<rparr>)"
  let ?fail = "demo_kube_lib\<lparr>NewNonInteractiveDeferredLoadingClientConfig := (\<lambda>rules ov. None)\<rparr>"
  have 1: "ToRawKubeConfigLoader demo_kube_lib ?k =
             (Return (Some ?cfg), ?k\<lparr>clientConfig := Some ?cfg\<rparr>,
              [InfoSuccessfullyInitializedConfig])"
    by (simp add: ToRawKubeConfigLoader_def settings_static run_static)
  have r: "toRawKubeConfigLoader ?fail ?k =
             (Return None, [ErrorFailedToInitializeKubernetesConfig])"
    by code_simp
  have 3: "ToRawKubeConfigLoader ?fail ?k =
             (Return None, ?k, [ErrorFailedToInitializeKubernetesConfig])"
  proof -
    have "?k\<lparr>clientConfig := None\<rparr> = ?k"
      by (simp add: demo_KubeConfig_def)
    then show ?thesis
      by (simp add: ToRawKubeConfigLoader_def settings_static r)
  qed
  from ToRawKubeConfigLoader_memoizes_success
         [of demo_kube_lib ?k ?cfg "?k\<lparr>clientConfig := Some ?cfg\<rparr>"
             "[InfoSuccessfullyInitializedConfig]"] 1
  have 2: "ToRawKubeConfigLoader ?fail (?k\<lparr>clientConfig := Some ?cfg\<rparr>) =
             (Return (Some ?cfg), ?k\<lparr>clientConfig := Some ?cfg\<rparr>, [])"
    by blast
  from ToRawKubeConfigLoader_memoizes_success
         [of ?fail ?k ?cfg ?k "[ErrorFailedToInitializeKubernetesConfig]"] 3
  have 4: "clientConfig ?k = None"
    by blast
  show ?thesis
    by (intro conjI) (rule 1 2 3 4)+
qed

lemma settings_exec:
  "k8sGetOk demo_kube_lib (ConfigData (demo_KubeConfig (demo_exec spec))) ''exec'' =
     (IList [spec], True)"
  "k8sGetOk demo_kube_lib (ConfigData (demo_KubeConfig (demo_exec spec))) ''config_context'' =
     (IString ''prod'', True)"
  "k8sGetOk demo_kube_lib (ConfigData (demo_KubeConfig (demo_exec spec))) ''config_path'' =
     (IString ''~/.kube/config'', True)"
  "k8sGet demo_kube_lib (ConfigData (demo_KubeConfig (demo_exec spec))) ''load_config_file'' =
     IBool True"
  by (simp_all add: demo_kube_lib_def demo_KubeConfig_def ResourceData_of_def demo_exec_def
        nonzero_def)




lemma build_exec:
  "build_overrides demo_kube_lib (demo_KubeConfig (demo_exec demo_spec)) =
     Next \<lparr>overrides = ConfigOverrides_zero
          \<lparr>AuthInfo := (AuthInfo ConfigOverrides_zero)
             \<lparr>Exec := Some \<lparr>Command = ''aws'', Args = [''eks''],
                             Env = [\<lparr>Name = ''A'', Value = ''1''\<rparr>], APIVersion = ''v1''\<rparr>\<rparr>,
           ClusterInfo := (ClusterInfo ConfigOverrides_zero)\<lparr>Server := ''http://10.0.0.1:6443''\<rparr>,
           Context := api_Context_zero\<lparr>ctx_Namespace := ''default''\<rparr>,
           CurrentContext := ''prod''\<rparr>,
        loader = \<lparr>ExplicitPath = ''/root/.kube/config''\<rparr>,
        logged = [DebugUsingCustomCurrentContext ''prod'',
                  DebugUsingOveriddenContext api_Context_zero]\<rparr>"
  by code_simp


text \<open>
  Claim C3, as the code has it. Where the resolver reaches the construction of the
  client configuration, the overrides are these. For the insecure flag, the CA data, the
  client certificate data, the client key data, the username, the password and the
  token: the setting as it is when it is present, and the unset (zero) value when it is
  absent. For the exec specification: when present, its first element is a map and the
  exec configuration holds the fields of that map; when absent, there is none. For the
  context selection (current context, auth info, cluster): the rule of the first seven
  fields when the kubeconfig file is loaded (\<open>load_config_file\<close> is true and a
  non-empty \<open>config_path\<close> is present), and unset otherwise. For the namespace: the
  namespace of the \<open>KubeConfig\<close> when it has one, and \<open>default\<close> otherwise.
\<close>

theorem overrides_copied_or_unset:
  assumes "build_overrides lib k = Next s"
  shows "copied_or_unset (k8sGetOk lib (ConfigData k) ''insecure'') (IBool False)
           (IBool (InsecureSkipTLSVerify (ClusterInfo (overrides s)))) \<and>
         copied_or_unset (k8sGetOk lib (ConfigData k) ''cluster_ca_certificate'') (IString [])
           (IString (CertificateAuthorityData (ClusterInfo (overrides s)))) \<and>
         copied_or_unset (k8sGetOk lib (ConfigData k) ''client_certificate'') (IString [])
           (IString (ClientCertificateData (AuthInfo (overrides s)))) \<and>
         copied_or_unset (k8sGetOk lib (ConfigData k) ''username'') (IString [])
           (IString (auth_Username (AuthInfo (overrides s)))) \<and>
         copied_or_unset (k8sGetOk lib (ConfigData k) ''password'') (IString [])
           (IString (auth_Password (AuthInfo (overrides s)))) \<and>
         copied_or_unset (k8sGetOk lib (ConfigData k) ''client_key'') (IString [])
           (IString (ClientKeyData (AuthInfo (overrides s)))) \<and>
         copied_or_unset (k8sGetOk lib (ConfigData k) ''token'') (IString [])
           (IString (Token (AuthInfo (overrides s)))) \<and>
         (if snd (k8sGetOk lib (ConfigData k) ''exec'')
          then \<exists>spec rest exec.
                 fst (k8sGetOk lib (ConfigData k) ''exec'') = IList (IMap spec # rest) \<and>
                 exec_copied lib spec exec \<and>
                 Exec (AuthInfo (overrides s)) = Some exec
          else Exec (AuthInfo (overrides s)) = None) \<and>
         (if loads_config_file lib k
          then copied_or_unset (k8sGetOk lib (ConfigData k) ''config_context'') (IString [])
                 (IString (CurrentContext (overrides s))) \<and>
               copied_or_unset (k8sGetOk lib (ConfigData k) ''config_context_auth_info'')
                 (IString []) (IString (ctx_AuthInfo (Context (overrides s)))) \<and>
               copied_or_unset (k8sGetOk lib (ConfigData k) ''config_context_cluster'')
                 (IString []) (IString (ctx_Cluster (Context (overrides s))))
          else CurrentContext (overrides s) = [] \<and>
               ctx_AuthInfo (Context (overrides s)) = [] \<and>
               ctx_Cluster (Context (overrides s)) = []) \<and>
         ctx_Namespace (Context (overrides s)) =
           (case Namespace k of None \<Rightarrow> ''default'' | Some namespace \<Rightarrow> namespace)"
proof -
  note f = build_overrides_fields [OF assms]
  have "if snd (k8sGetOk lib (ConfigData k) ''exec'')
          then \<exists>spec rest exec.
                 fst (k8sGetOk lib (ConfigData k) ''exec'') = IList (IMap spec # rest) \<and>
                 exec_copied lib spec exec \<and>
                 Exec (AuthInfo (overrides s)) = Some exec
          else Exec (AuthInfo (overrides s)) = None"
    using f(8) by (auto dest: exec_config_Return split: if_splits)
  with f(1-7) f(10) f(11) show ?thesis
    by (intro conjI)
qed

theorem overrides_copied_or_unset_witness:
  "build_overrides demo_kube_lib (demo_KubeConfig (demo_exec demo_spec)) =
     Next \<lparr>overrides = ConfigOverrides_zero
          \<lparr>AuthInfo := (AuthInfo ConfigOverrides_zero)
             \<lparr>Exec := Some \<lparr>Command = ''aws'', Args = [''eks''],
                             Env = [\<lparr>Name = ''A'', Value = ''1''\<rparr>], APIVersion = ''v1''\<rparr>\<rparr>,
           ClusterInfo := (ClusterInfo ConfigOverrides_zero)\<lparr>Server := ''http://10.0.0.1:6443''\<rparr>,
           Context := api_Context_zero\<lparr>ctx_Namespace := ''default''\<rparr>,
           CurrentContext := ''prod''\<rparr>,
        loader = \<lparr>ExplicitPath = ''/root/.kube/config''\<rparr>,
        logged = [DebugUsingCustomCurrentContext ''prod'',
                  DebugUsingOveriddenContext api_Context_zero]\<rparr>
   \<and> loads_config_file demo_kube_lib (demo_KubeConfig (demo_exec demo_spec))
   \<and> k8sGetOk demo_kube_lib (ConfigData (demo_KubeConfig (demo_exec demo_spec)))
         ''config_context'' = (IString ''prod'', True)
   \<and> copied_or_unset
         (k8sGetOk demo_kube_lib (ConfigData (demo_KubeConfig (demo_exec demo_spec)))
            ''config_context'')
         (IString []) (IString ''prod'')
   \<and> copied_or_unset
         (k8sGetOk demo_kube_lib (ConfigData (demo_KubeConfig (demo_exec demo_spec))) ''token'')
         (IString []) (IString [])"
proof -
  let ?k = "demo_KubeConfig (demo_exec demo_spec)"
  have 2: "loads_config_file demo_kube_lib ?k"
    by (simp add: loads_config_file_def settings_exec)
  note T = overrides_copied_or_unset [OF build_exec]
  from T 2 have 4: "copied_or_unset (k8sGetOk demo_kube_lib (ConfigData ?k) ''config_context'')
         (IString []) (IString ''prod'')"
    by (simp add: ConfigOverrides_zero_def)
  from T have 5: "copied_or_unset (k8sGetOk demo_kube_lib (ConfigData ?k) ''token'')
         (IString []) (IString [])"
    by (simp add: ConfigOverrides_zero_def)
  show ?thesis
    by (intro conjI) (rule build_exec 2 settings_exec(2) 4 5)+
qed

text \<open>
  The rule does not hold of every field: with a context supplied and no kubeconfig file
  to load, the current context stays unset; with no namespace, the namespace override is
  \<open>default\<close>, not unset.
\<close>

theorem overrides_copied_or_unset_counterexample:
  "build_overrides demo_kube_lib (demo_KubeConfig demo_static) =
     Next \<lparr>overrides = ConfigOverrides_zero
          \<lparr>AuthInfo := (AuthInfo ConfigOverrides_zero)\<lparr>ClientCertificateData := ''CERT''\<rparr>,
           ClusterInfo := (ClusterInfo ConfigOverrides_zero)\<lparr>Server := ''https://10.0.0.1:6443''\<rparr>,
           Context := api_Context_zero\<lparr>ctx_Namespace := ''default''\<rparr>\<rparr>,
        loader = ClientConfigLoadingRules_zero, logged = []\<rparr>
   \<and> k8sGetOk demo_kube_lib (ConfigData (demo_KubeConfig demo_static)) ''config_context'' =
       (IString ''prod'', True)
   \<and> \<not> copied_or_unset
         (k8sGetOk demo_kube_lib (ConfigData (demo_KubeConfig demo_static)) ''config_context'')
         (IString [])
         (IString (CurrentContext (ConfigOverrides_zero
          \<lparr>AuthInfo := (AuthInfo ConfigOverrides_zero)\<lparr>ClientCertificateData := ''CERT''\<rparr>,
           ClusterInfo := (ClusterInfo ConfigOverrides_zero)\<lparr>Server := ''https://10.0.0.1:6443''\<rparr>,
           Context := api_Context_zero\<lparr>ctx_Namespace := ''default''\<rparr>\<rparr>)))
   \<and> Namespace (demo_KubeConfig demo_static) = None
   \<and> ctx_Namespace (Context (ConfigOverrides_zero
          \<lparr>AuthInfo := (AuthInfo ConfigOverrides_zero)\<lparr>ClientCertificateData := ''CERT''\<rparr>,
           ClusterInfo := (ClusterInfo ConfigOverrides_zero)\<lparr>Server := ''https://10.0.0.1:6443''\<rparr>,
           Context := api_Context_zero\<lparr>ctx_Namespace := ''default''\<rparr>\<rparr>)) \<noteq>
       ctx_Namespace (Context ConfigOverrides_zero)"
proof -
  have 3: "\<not> copied_or_unset
         (k8sGetOk demo_kube_lib (ConfigData (demo_KubeConfig demo_static)) ''config_context'')
         (IString [])
         (IString (CurrentContext (ConfigOverrides_zero
          \<lparr>AuthInfo := (AuthInfo ConfigOverrides_zero)\<lparr>ClientCertificateData := ''CERT''\<rparr>,
           ClusterInfo := (ClusterInfo ConfigOverrides_zero)\<lparr>Server := ''https://10.0.0.1:6443''\<rparr>,
           Context := api_Context_zero\<lparr>ctx_Namespace := ''default''\<rparr>\<rparr>)))"
    by (simp add: settings_static copied_or_unset_def ConfigOverrides_zero_def)
  have 5: "ctx_Namespace (Context (ConfigOverrides_zero
          \<lparr>AuthInfo := (AuthInfo ConfigOverrides_zero)\<lparr>ClientCertificateData := ''CERT''\<rparr>,
           ClusterInfo := (ClusterInfo ConfigOverrides_zero)\<lparr>Server := ''https://10.0.0.1:6443''\<rparr>,
           Context := api_Context_zero\<lparr>ctx_Namespace := ''default''\<rparr>\<rparr>)) \<noteq>
       ctx_Namespace (Context ConfigOverrides_zero)"
    by (simp add: ConfigOverrides_zero_def api_Context_zero_def)
  show ?thesis
    by (intro conjI) (rule build_static settings_static(3) 3 settings_static(4) 5)+
qed


end
